theory Spec2Isabelle
  imports Main "HOL-Library.Sublist"
begin

section \<open>JavaScript strings\<close>

text \<open>
  A JavaScript string is modelled as a \<^typ>\<open>string\<close>: a list of code units in the
  range 0..255 (the Latin-1 block of UTF-16).  The character tests below are the
  ECMAScript definitions restricted to that range.
\<close>

definition code :: "char \<Rightarrow> nat" where
  "code c = of_char c"

definition isWhiteSpace :: "char \<Rightarrow> bool" where
  \<comment> \<open>the class \<open>\s\<close>, and what \<open>trim\<close> strips: TAB, LF, VT, FF, CR, SP, NBSP\<close>
  "isWhiteSpace c = (code c \<in> set [9, 10, 11, 12, 13, 32, 160])"

definition isLineTerminator :: "char \<Rightarrow> bool" where
  \<comment> \<open>what \<open>.\<close> refuses and where \<open>^\<close> and \<open>$\<close> anchor under the flag \<open>m\<close>: LF, CR\<close>
  "isLineTerminator c = (code c \<in> set [10, 13])"

definition lowerChar :: "char \<Rightarrow> char" where
  "lowerChar c =
     (let n = code c
      in if (65 \<le> n \<and> n \<le> 90) \<or> (192 \<le> n \<and> n \<le> 222 \<and> n \<noteq> 215)
         then char_of (n + 32) else c)"

definition upperChar :: "char \<Rightarrow> char" where
  \<comment> \<open>also the canonical form a pattern with the flag \<open>i\<close> compares; the code units
      181, 223 and 255 have no upper case inside the range and stay as they are\<close>
  "upperChar c =
     (let n = code c
      in if (97 \<le> n \<and> n \<le> 122) \<or> (224 \<le> n \<and> n \<le> 254 \<and> n \<noteq> 247)
         then char_of (n - 32) else c)"

definition toLowerCase :: "string \<Rightarrow> string" where
  "toLowerCase s = map lowerChar s"

definition toUpperCase :: "string \<Rightarrow> string" where
  "toUpperCase s = map upperChar s"

definition trim :: "string \<Rightarrow> string" where
  "trim s = rev (dropWhile isWhiteSpace (rev (dropWhile isWhiteSpace s)))"

fun str_includes :: "string \<Rightarrow> string \<Rightarrow> bool" where
  "str_includes [] sub = (sub = [])"
| "str_includes (c # cs) sub = (prefix sub (c # cs) \<or> str_includes cs sub)"

fun split_on :: "char \<Rightarrow> string \<Rightarrow> string list" where
  \<comment> \<open>\<open>s.split(c)\<close> for a one-character separator: never empty\<close>
  "split_on sep [] = [[]]"
| "split_on sep (c # cs) =
     (case split_on sep cs of
        [] \<Rightarrow> (if c = sep then [[], []] else [[c]])
      | p # ps \<Rightarrow> (if c = sep then [] # p # ps else (c # p) # ps))"

fun findIndex :: "('a \<Rightarrow> bool) \<Rightarrow> 'a list \<Rightarrow> nat option" where
  \<comment> \<open>\<open>None\<close> is the \<open>-1\<close> of JavaScript\<close>
  "findIndex P [] = None"
| "findIndex P (x # xs) =
     (if P x then Some 0 else map_option Suc (findIndex P xs))"

section \<open>The data model\<close>

datatype doc_type = Docx | Xml | Pdf

datatype js_date = Date int
  \<comment> \<open>\<open>new Date(t)\<close>, of \<open>t\<close> milliseconds since the epoch\<close>

definition timeValue :: "js_date \<Rightarrow> int option" where
  \<comment> \<open>the time value that \<open>TimeClip\<close> leaves: \<open>None\<close> is \<open>NaN\<close>, the invalid date\<close>
  "timeValue d = (case d of Date t \<Rightarrow> if \<bar>t\<bar> \<le> 8640000000000000 then Some t else None)"

record metadata =
  size :: nat
  modified :: js_date
  path :: string

record DocumentContent =
  filename :: string
  title :: string
  content :: string
  dtype :: doc_type
  category :: string
  metadata :: metadata

record EndpointInfo =
  ep_name :: string
  ep_description :: string
  ep_method :: string
  ep_url :: string
  ep_category :: string
  ep_source :: string

datatype example_type = Request | Response

record ExampleInfo =
  ex_name :: string
  ex_type :: example_type
  ex_content :: string
  ex_operation :: string
  ex_source :: string

record RuleInfo =
  rule_name :: string
  rule_description :: string
  rule_category :: string
  rule_source :: string

record ProcessedKnowledge =
  documents :: "DocumentContent list"
  endpoints :: "EndpointInfo list"
  examples :: "ExampleInfo list"
  rules :: "RuleInfo list"

section \<open>The document classifier\<close>

definition categorizeDocument :: "string \<Rightarrow> string" where
  "categorizeDocument fname =
     (let lower = toLowerCase fname
      in if str_includes lower ''cf1'' then ''Basic Connectivity''
         else if str_includes lower ''cf2'' then ''Submit DDS''
         else if str_includes lower ''cf3'' then ''Retrieve DDS Status''
         else if str_includes lower ''cf4'' then ''Error Conditions''
         else if str_includes lower ''cf5'' then ''Amend DDS''
         else if str_includes lower ''cf6'' then ''Retract DDS''
         else if str_includes lower ''cf7'' then ''Retrieve Referenced DDS''
         else if str_includes lower ''validation'' then ''Validation Rules''
         else if str_includes lower ''specification'' then ''API Specifications''
         else if str_includes lower ''development'' then ''Development Options''
         else if str_includes lower ''geojson'' then ''GeoJSON''
         else if str_includes lower ''python'' then ''Python Examples''
         else if str_includes lower ''request'' then ''Request Examples''
         else if str_includes lower ''response'' then ''Response Examples''
         else ''General'')"

definition extractOperationFromFilename :: "string \<Rightarrow> string" where
  "extractOperationFromFilename fname =
     (let lower = toLowerCase fname
      in if str_includes lower ''echo'' then ''EchoService''
         else if str_includes lower ''submit'' then ''SubmitDDS''
         else if str_includes lower ''retrieve'' then ''RetrieveDDS''
         else if str_includes lower ''amend'' then ''AmendDDS''
         else if str_includes lower ''retract'' then ''RetractDDS''
         else if str_includes lower ''statement'' then ''GetStatement''
         else ''Unknown'')"

section \<open>Example extraction\<close>

definition extractExamples :: "DocumentContent \<Rightarrow> ProcessedKnowledge \<Rightarrow> ProcessedKnowledge" where
  "extractExamples doc kb =
     (if dtype doc = Xml then
        (let isRequest = str_includes (toLowerCase (filename doc)) ''request'';
             isResponse = str_includes (toLowerCase (filename doc)) ''response''
         in if isRequest \<or> isResponse then
              kb\<lparr>examples := examples kb @
                [\<lparr>ex_name = title doc,
                  ex_type = (if isRequest then Request else Response),
                  ex_content = content doc,
                  ex_operation = extractOperationFromFilename (filename doc),
                  ex_source = filename doc\<rparr>]\<rparr>
            else kb)
      else kb)"

section \<open>Regular expressions\<close>

text \<open>
  The patterns of the source are matched by backtracking, in continuation style: a
  repetition hands the text it consumed and the remaining input to its continuation
  and gives back one character at a time while the continuation fails.
\<close>

fun plus_greedy :: "(char \<Rightarrow> bool) \<Rightarrow> string \<Rightarrow> (string \<Rightarrow> string \<Rightarrow> 'a option) \<Rightarrow> 'a option" where
  \<comment> \<open>\<open>[class]+\<close>\<close>
  "plus_greedy P [] k = None"
| "plus_greedy P (c # cs) k =
     (if P c then
        (case plus_greedy P cs (\<lambda>m. k (c # m)) of
           Some r \<Rightarrow> Some r
         | None \<Rightarrow> k [c] cs)
      else None)"

definition star_greedy :: "(char \<Rightarrow> bool) \<Rightarrow> string \<Rightarrow> (string \<Rightarrow> string \<Rightarrow> 'a option) \<Rightarrow> 'a option" where
  \<comment> \<open>\<open>[class]*\<close>\<close>
  "star_greedy P s k =
     (case plus_greedy P s k of Some r \<Rightarrow> Some r | None \<Rightarrow> k [] s)"

fun literal :: "bool \<Rightarrow> string \<Rightarrow> string \<Rightarrow> (string \<times> string) option" where
  \<comment> \<open>literal text at the front of the input, compared in canonical form under the
      flag \<open>i\<close>: the text matched and the remaining input\<close>
  "literal ic [] s = Some ([], s)"
| "literal ic (l # ls) [] = None"
| "literal ic (l # ls) (c # cs) =
     (if (if ic then upperChar l = upperChar c else l = c)
      then map_option (\<lambda>(m, r). (c # m, r)) (literal ic ls cs)
      else None)"

fun search :: "(string \<Rightarrow> 'a option) \<Rightarrow> string \<Rightarrow> 'a option" where
  \<comment> \<open>the leftmost position where the pattern matches\<close>
  "search f [] = f []"
| "search f (c # cs) =
     (case f (c # cs) of Some r \<Rightarrow> Some r | None \<Rightarrow> search f cs)"

fun search_line :: "(string \<Rightarrow> 'a option) \<Rightarrow> bool \<Rightarrow> string \<Rightarrow> 'a option" where
  \<comment> \<open>the same for a pattern opening with \<open>^\<close> under the flag \<open>m\<close>; the flag says whether
      the position is at the start of the input or behind a line terminator\<close>
  "search_line f atStart [] = (if atStart then f [] else None)"
| "search_line f atStart (c # cs) =
     (case (if atStart then f (c # cs) else None) of
        Some r \<Rightarrow> Some r
      | None \<Rightarrow> search_line f (isLineTerminator c) cs)"

definition at_line_end :: "string \<Rightarrow> bool" where
  \<comment> \<open>\<open>$\<close> under the flag \<open>m\<close>\<close>
  "at_line_end s = (case s of [] \<Rightarrow> True | c # _ \<Rightarrow> isLineTerminator c)"

text \<open>
  The seven global patterns of the extractors have one shape: one of several cue words,
  a separator class repeated, a captured class repeated.
\<close>

record pattern =
  words :: "string list"
  ignoreCase :: bool
  separator :: "char \<Rightarrow> bool"
  captured :: "char \<Rightarrow> bool"

fun match_words :: "pattern \<Rightarrow> string list \<Rightarrow> string \<Rightarrow> (string \<times> string) option" where
  \<comment> \<open>the alternatives in order, at one position: \<open>match[1]\<close> and the input behind the match\<close>
  "match_words p [] s = None"
| "match_words p (w # ws) s =
     (case (case literal (ignoreCase p) w s of
              None \<Rightarrow> None
            | Some (_, r) \<Rightarrow>
                plus_greedy (separator p) r
                  (\<lambda>_ r1. plus_greedy (captured p) r1 (\<lambda>m r2. Some (m, r2)))) of
        Some res \<Rightarrow> Some res
      | None \<Rightarrow> match_words p ws s)"

definition exec :: "pattern \<Rightarrow> string \<Rightarrow> (string \<times> string) option" where
  \<comment> \<open>\<open>pattern.exec(content)\<close> of a global pattern; its \<open>lastIndex\<close> is kept as the input
      that is still to be scanned\<close>
  "exec p s = search (match_words p (words p)) s"

definition verbThenToken :: pattern where
  \<comment> \<open>\<open>/(?:POST|GET|PUT|DELETE)\s+([^\s]+)/g\<close>\<close>
  "verbThenToken =
     \<lparr>words = [''POST'', ''GET'', ''PUT'', ''DELETE''], ignoreCase = False,
      separator = isWhiteSpace, captured = (\<lambda>c. \<not> isWhiteSpace c)\<rparr>"

definition endpointToken :: pattern where
  \<comment> \<open>\<open>/endpoint[:\s]+([^\s]+)/gi\<close>\<close>
  "endpointToken =
     \<lparr>words = [''endpoint''], ignoreCase = True,
      separator = (\<lambda>c. c = CHR '':'' \<or> isWhiteSpace c), captured = (\<lambda>c. \<not> isWhiteSpace c)\<rparr>"

definition urlToken :: pattern where
  \<comment> \<open>\<open>/url[:\s]+([^\s]+)/gi\<close>\<close>
  "urlToken =
     \<lparr>words = [''url''], ignoreCase = True,
      separator = (\<lambda>c. c = CHR '':'' \<or> isWhiteSpace c), captured = (\<lambda>c. \<not> isWhiteSpace c)\<rparr>"

definition cue :: "string \<Rightarrow> pattern" where
  \<comment> \<open>\<open>/rule[:\s]+([^\n]+)/gi\<close> and its three siblings\<close>
  "cue w =
     \<lparr>words = [w], ignoreCase = True,
      separator = (\<lambda>c. c = CHR '':'' \<or> isWhiteSpace c), captured = (\<lambda>c. c \<noteq> CHR 0x0A)\<rparr>"

definition endpointPatterns :: "pattern list" where
  "endpointPatterns = [verbThenToken, endpointToken, urlToken]"

definition rulePatterns :: "pattern list" where
  "rulePatterns = [cue ''rule'', cue ''validation'', cue ''must'', cue ''should'']"

text \<open>
  \<open>while ((match = pattern.exec(content)) !== null) body(match[1])\<close>: the loop ends
  because every match consumes input.
\<close>

lemma plus_greedy_shorter:
  assumes "\<And>m r c r'. k m r = Some (c, r') \<Longrightarrow> length r' \<le> length r"
    and "plus_greedy P s k = Some (c, r')"
  shows "length r' < length s"
  using assms
proof (induction s arbitrary: k)
  case Nil
  then show ?case by simp
next
  case (Cons a s)
  from Cons.prems(2) have pa: "P a" by (simp split: if_splits)
  show ?case
  proof (cases "plus_greedy P s (\<lambda>m. k (a # m))")
    case None
    with Cons.prems(2) pa have "k [a] s = Some (c, r')" by simp
    from Cons.prems(1)[OF this] show ?thesis by simp
  next
    case (Some x)
    with Cons.prems(2) pa have "plus_greedy P s (\<lambda>m. k (a # m)) = Some (c, r')" by simp
    from Cons.IH[OF _ this] Cons.prems(1) have "length r' < length s" by blast
    then show ?thesis by simp
  qed
qed

lemma literal_length:
  "literal ic w s = Some (m, r) \<Longrightarrow> length r \<le> length s"
proof (induction ic w s arbitrary: m r rule: literal.induct)
  case (3 ic l ls c cs)
  then show ?case by (fastforce split: if_splits)
qed auto

lemma match_words_shorter:
  "match_words p ws s = Some (c, r') \<Longrightarrow> length r' < length s"
proof (induction ws)
  case Nil
  then show ?case by simp
next
  case (Cons w ws)
  show ?case
  proof (cases "literal (ignoreCase p) w s")
    case None
    with Cons show ?thesis by simp
  next
    case (Some mr)
    obtain m r where mr: "mr = (m, r)" by (cases mr)
    let ?inner = "plus_greedy (separator p) r
                    (\<lambda>_ r1. plus_greedy (captured p) r1 (\<lambda>m r2. Some (m, r2)))"
    show ?thesis
    proof (cases ?inner)
      case None
      with Some mr Cons show ?thesis by simp
    next
      case inner: (Some res)
      with Some mr Cons.prems have eq: "?inner = Some (c, r')" by simp
      have "\<And>m r1 c r'. plus_greedy (captured p) r1 (\<lambda>m r2. Some (m, r2)) = Some (c, r')
               \<Longrightarrow> length r' \<le> length r1"
        using plus_greedy_shorter[where k = "\<lambda>m r2. Some (m, r2)"] by fastforce
      from plus_greedy_shorter[OF this eq] have "length r' < length r" .
      with literal_length[OF Some[unfolded mr]] show ?thesis by simp
    qed
  qed
qed

lemma search_length:
  assumes "\<And>s c r'. f s = Some (c, r') \<Longrightarrow> length r' < length s"
  shows "search f s = Some (c, r') \<Longrightarrow> length r' < length s"
proof (induction s)
  case Nil
  then show ?case using assms[of "[]"] by auto
next
  case (Cons a s)
  then show ?case using assms[of "a # s"] by (fastforce split: option.splits)
qed

lemma exec_shorter:
  "exec p s = Some (c, r') \<Longrightarrow> length r' < length s"
  unfolding exec_def by (rule search_length[OF match_words_shorter])

function while_exec :: "pattern \<Rightarrow> (string \<Rightarrow> 's \<Rightarrow> 's) \<Rightarrow> string \<Rightarrow> 's \<Rightarrow> 's" where
  "while_exec p body s st =
     (case exec p s of
        None \<Rightarrow> st
      | Some (m, s') \<Rightarrow> while_exec p body s' (body m st))"
  by pat_completeness auto
termination
  by (relation "measure (\<lambda>(p, body, s, st). length s)") (auto dest: exec_shorter)

function exec_all :: "pattern \<Rightarrow> string \<Rightarrow> string list" where
  \<comment> \<open>the \<open>match[1]\<close> of all matches of a global pattern, from left to right\<close>
  "exec_all p s =
     (case exec p s of
        None \<Rightarrow> []
      | Some (m, s') \<Rightarrow> m # exec_all p s')"
  by pat_completeness auto
termination
  by (relation "measure (\<lambda>(p, s). length s)") (auto dest: exec_shorter)

declare while_exec.simps [simp del] exec_all.simps [simp del]

section \<open>Endpoint extraction\<close>

definition extractOperationName :: "string \<Rightarrow> string \<Rightarrow> string" where
  "extractOperationName endpoint cat =
     (let parts = split_on (CHR ''/'') endpoint;
          lastPart = last parts
      in cat @ '' - '' @ lastPart)"

function description_loop :: "string list \<Rightarrow> string \<Rightarrow> nat \<Rightarrow> nat \<Rightarrow> string option" where
  \<comment> \<open>\<open>for (let i = lo; i < hi; i++)\<close>, leaving at the first line that qualifies\<close>
  "description_loop lines endpoint i hi =
     (if i < hi then
        (let line = trim (lines ! i)
         in if line \<noteq> [] \<and> \<not> str_includes line endpoint \<and> length line > 20
            then Some line
            else description_loop lines endpoint (i + 1) hi)
      else None)"
  by pat_completeness auto
termination
  by (relation "measure (\<lambda>(lines, endpoint, i, hi). hi - i)") auto

declare description_loop.simps [simp del]

definition extractEndpointDescription :: "string \<Rightarrow> string \<Rightarrow> string" where
  \<comment> \<open>\<open>endpointLine - 3\<close> is a subtraction of naturals, which stops at 0 as
      \<open>Math.max(0, endpointLine - 3)\<close> does; the loop reads \<open>lines ! i\<close> below
      \<open>length lines\<close> only\<close>
  "extractEndpointDescription content' endpoint =
     (let lines = split_on (CHR 0x0A) content'
      in case findIndex (\<lambda>line. str_includes line endpoint) lines of
           None \<Rightarrow> endpoint @ '' endpoint''
         | Some endpointLine \<Rightarrow>
             (case description_loop lines endpoint (endpointLine - 3)
                     (min (length lines) (endpointLine + 3)) of
                Some line \<Rightarrow> line
              | None \<Rightarrow> endpoint @ '' endpoint''))"

fun method_here :: "string list \<Rightarrow> string \<Rightarrow> string \<Rightarrow> string option" where
  \<comment> \<open>\<open>(POST|GET|PUT|DELETE)\s+\<close> and the escaped endpoint, under the flag \<open>i\<close>, at one
      position: \<open>methodMatch[1]\<close>\<close>
  "method_here [] endpoint s = None"
| "method_here (v # vs) endpoint s =
     (case (case literal True v s of
              None \<Rightarrow> None
            | Some (m, r) \<Rightarrow>
                plus_greedy isWhiteSpace r
                  (\<lambda>_ r1. map_option (\<lambda>_. m) (literal True endpoint r1))) of
        Some res \<Rightarrow> Some res
      | None \<Rightarrow> method_here vs endpoint s)"

definition extractMethod :: "string \<Rightarrow> string \<Rightarrow> string" where
  "extractMethod content' endpoint =
     (case search (method_here [''POST'', ''GET'', ''PUT'', ''DELETE''] endpoint) content' of
        Some m \<Rightarrow> toUpperCase m
      | None \<Rightarrow> ''POST'')"

definition endpointInfo :: "DocumentContent \<Rightarrow> string \<Rightarrow> EndpointInfo" where
  \<comment> \<open>the object literal pushed by \<open>extractEndpoints\<close>\<close>
  "endpointInfo doc endpoint =
     \<lparr>ep_name = extractOperationName endpoint (category doc),
      ep_description = extractEndpointDescription (content doc) endpoint,
      ep_method = extractMethod (content doc) endpoint,
      ep_url = endpoint,
      ep_category = category doc,
      ep_source = filename doc\<rparr>"

definition pushEndpoint :: "DocumentContent \<Rightarrow> string \<Rightarrow> ProcessedKnowledge \<Rightarrow> ProcessedKnowledge" where
  \<comment> \<open>the body of the \<open>while\<close> loop of \<open>extractEndpoints\<close>\<close>
  "pushEndpoint doc endpoint kb =
     (if endpoint \<noteq> [] \<and> str_includes endpoint ''/''
      then kb\<lparr>endpoints := endpoints kb @ [endpointInfo doc endpoint]\<rparr>
      else kb)"

definition extractEndpoints :: "DocumentContent \<Rightarrow> ProcessedKnowledge \<Rightarrow> ProcessedKnowledge" where
  "extractEndpoints doc kb =
     fold (\<lambda>p. while_exec p (pushEndpoint doc) (content doc)) endpointPatterns kb"

section \<open>Rule extraction\<close>

definition pushRule :: "DocumentContent \<Rightarrow> string \<Rightarrow> ProcessedKnowledge \<Rightarrow> ProcessedKnowledge" where
  \<comment> \<open>the body of the \<open>while\<close> loop of \<open>extractRules\<close>\<close>
  "pushRule doc m kb =
     kb\<lparr>rules := rules kb @
       [\<lparr>rule_name = trim m, rule_description = trim m,
         rule_category = ''Validation'', rule_source = filename doc\<rparr>]\<rparr>"

definition extractRules :: "DocumentContent \<Rightarrow> ProcessedKnowledge \<Rightarrow> ProcessedKnowledge" where
  "extractRules doc kb =
     (if category doc = ''Validation Rules''
      then fold (\<lambda>p. while_exec p (pushRule doc) (content doc)) rulePatterns kb
      else kb)"

definition extractStructuredInfo :: "DocumentContent \<Rightarrow> ProcessedKnowledge \<Rightarrow> ProcessedKnowledge" where
  "extractStructuredInfo doc kb = extractRules doc (extractExamples doc (extractEndpoints doc kb))"

section \<open>Title extraction\<close>

definition title_tail :: "string \<Rightarrow> string option" where
  \<comment> \<open>\<open>\s*(.+)$\<close> under the flag \<open>m\<close>: the group\<close>
  "title_tail s =
     star_greedy isWhiteSpace s
       (\<lambda>_ r1. plus_greedy (\<lambda>c. \<not> isLineTerminator c) r1
          (\<lambda>m r2. if at_line_end r2 then Some m else None))"

definition markdownTitle :: "string \<Rightarrow> string option" where
  \<comment> \<open>\<open>/^#\s*(.+)$/m\<close> at a line start\<close>
  "markdownTitle s =
     (case literal False ''#'' s of None \<Rightarrow> None | Some (_, r) \<Rightarrow> title_tail r)"

definition prefixedTitle :: "string \<Rightarrow> string option" where
  \<comment> \<open>\<open>/^Title:\s*(.+)$/m\<close> at a line start\<close>
  "prefixedTitle s =
     (case literal False ''Title:'' s of None \<Rightarrow> None | Some (_, r) \<Rightarrow> title_tail r)"

definition underlinedTitle :: "string \<Rightarrow> string option" where
  \<comment> \<open>\<open>/^(.+)\n={3,}$/m\<close> at a line start\<close>
  "underlinedTitle s =
     plus_greedy (\<lambda>c. \<not> isLineTerminator c) s
       (\<lambda>m r. case literal False [CHR 0x0A, CHR ''='', CHR ''='', CHR ''=''] r of
                 None \<Rightarrow> None
               | Some (_, r1) \<Rightarrow>
                   star_greedy (\<lambda>c. c = CHR ''='') r1
                     (\<lambda>_ r2. if at_line_end r2 then Some m else None))"

fun removeExtension :: "string \<Rightarrow> string" where
  \<comment> \<open>\<open>filename.replace(/\.[^/.]+$/, "")\<close>: the leftmost match is cut out\<close>
  "removeExtension [] = []"
| "removeExtension (c # cs) =
     (if c = CHR ''.'' \<and>
         plus_greedy (\<lambda>x. x \<noteq> CHR ''/'' \<and> x \<noteq> CHR ''.'') cs
           (\<lambda>_ r. if r = [] then Some () else None) = Some ()
      then [] else c # removeExtension cs)"

fun firstTitle :: "(string \<Rightarrow> string option) list \<Rightarrow> string \<Rightarrow> string \<Rightarrow> string" where
  \<comment> \<open>the loop over \<open>titlePatterns\<close>, leaving at the first pattern that matches\<close>
  "firstTitle [] content' title' = title'"
| "firstTitle (pat # pats) content' title' =
     (case search_line pat True content' of
        Some m \<Rightarrow> trim m
      | None \<Rightarrow> firstTitle pats content' title')"

definition extractTitle :: "string \<Rightarrow> string \<Rightarrow> string" where
  "extractTitle fname content' =
     firstTitle [markdownTitle, prefixedTitle, underlinedTitle] content' (removeExtension fname)"

section \<open>JSON\<close>

text \<open>
  The values of JavaScript that a knowledge base is built from, and the texts of JSON
  as their syntax trees.  \<open>JSON.stringify\<close> writes such a tree and \<open>JSON.parse\<close> reads
  it back; a \<open>Date\<close> is written through its \<open>toJSON\<close>, which is \<open>toISOString\<close> for a
  valid date and \<open>null\<close> for the invalid one, a property that is \<open>undefined\<close> is left
  out, and no tree is read back as a \<open>Date\<close>.
\<close>

datatype js_value =
  VUndefined
| VNull
| VBool bool
| VNumber int
| VString string
| VDate js_date
| VArray "js_value list"
| VObject "(string \<times> js_value) list"

datatype json =
  JNull
| JBool bool
| JNumber int
| JString string
| JArray "json list"
| JObject "(string \<times> json) list"

definition digits :: "nat \<Rightarrow> int \<Rightarrow> string" where
  \<comment> \<open>a number below \<open>10 ^ w\<close> in \<open>w\<close> decimal digits\<close>
  "digits w n = map (\<lambda>i. char_of (48 + (n div 10 ^ (w - 1 - i)) mod 10)) [0..<w]"

definition toISOString :: "int \<Rightarrow> string" where
  \<comment> \<open>\<open>YYYY-MM-DDTHH:mm:ss.sssZ\<close> of a time value in milliseconds, in the proleptic
      Gregorian calendar; a year outside 0..9999 has a sign and six digits\<close>
  "toISOString t =
        (let day = t div 86400000;
             ms = t mod 86400000;
             z = day + 719468;
             era = z div 146097;
             doe = z mod 146097;
             yoe = (doe - doe div 1460 + doe div 36524 - doe div 146096) div 365;
             doy = doe - (365 * yoe + yoe div 4 - yoe div 100);
             mp = (5 * doy + 2) div 153;
             dd = doy - (153 * mp + 2) div 5 + 1;
             mm = (if mp < 10 then mp + 3 else mp - 9);
             yy = yoe + era * 400 + (if mm \<le> 2 then 1 else 0);
             year = (if 0 \<le> yy \<and> yy \<le> 9999 then digits 4 yy
                     else (if yy < 0 then ''-'' else ''+'') @ digits 6 \<bar>yy\<bar>)
         in year @ ''-'' @ digits 2 mm @ ''-'' @ digits 2 dd @ ''T'' @
            digits 2 (ms div 3600000) @ '':'' @ digits 2 (ms div 60000 mod 60) @ '':'' @
            digits 2 (ms div 1000 mod 60) @ ''.'' @ digits 3 (ms mod 1000) @ ''Z'')"

fun JSON_stringify :: "js_value \<Rightarrow> json option"
  and stringify_elements :: "js_value list \<Rightarrow> json list"
  and stringify_properties :: "(string \<times> js_value) list \<Rightarrow> (string \<times> json) list" where
  "JSON_stringify VUndefined = None"
| "JSON_stringify VNull = Some JNull"
| "JSON_stringify (VBool b) = Some (JBool b)"
| "JSON_stringify (VNumber n) = Some (JNumber n)"
| "JSON_stringify (VString s) = Some (JString s)"
| "JSON_stringify (VDate d) =
     (case timeValue d of None \<Rightarrow> Some JNull | Some t \<Rightarrow> Some (JString (toISOString t)))"
| "JSON_stringify (VArray vs) = Some (JArray (stringify_elements vs))"
| "JSON_stringify (VObject kvs) = Some (JObject (stringify_properties kvs))"
| "stringify_elements [] = []"
| "stringify_elements (v # vs) =
     (case JSON_stringify v of None \<Rightarrow> JNull | Some j \<Rightarrow> j) # stringify_elements vs"
| "stringify_properties [] = []"
| "stringify_properties ((k, v) # kvs) =
     (case JSON_stringify v of
        None \<Rightarrow> stringify_properties kvs
      | Some j \<Rightarrow> (k, j) # stringify_properties kvs)"

fun JSON_parse :: "json \<Rightarrow> js_value"
  and parse_elements :: "json list \<Rightarrow> js_value list"
  and parse_members :: "(string \<times> json) list \<Rightarrow> (string \<times> js_value) list" where
  "JSON_parse JNull = VNull"
| "JSON_parse (JBool b) = VBool b"
| "JSON_parse (JNumber n) = VNumber n"
| "JSON_parse (JString s) = VString s"
| "JSON_parse (JArray js) = VArray (parse_elements js)"
| "JSON_parse (JObject kjs) = VObject (parse_members kjs)"
| "parse_elements [] = []"
| "parse_elements (j # js) = JSON_parse j # parse_elements js"
| "parse_members [] = []"
| "parse_members ((k, j) # kjs) = (k, JSON_parse j) # parse_members kjs"

section \<open>The file system and the decoders\<close>

text \<open>
  What the pipeline calls outside the repository is a parameter of the model: the
  \<open>fs\<close> and \<open>path\<close> modules of Node.js and the three decoding libraries.  A call
  that throws returns \<open>Inl\<close>.
\<close>

datatype exn = Exn string

record stats =
  isDirectory :: bool
  st_size :: nat
  mtime :: js_date

record node_env =
  existsSync :: "string \<Rightarrow> bool"
  readdirSync :: "string \<Rightarrow> exn + string list"
  statSync :: "string \<Rightarrow> exn + stats"
  readFileSync :: "string \<Rightarrow> exn + string"
  writeFileSync :: "string \<Rightarrow> json \<Rightarrow> exn + unit"
    \<comment> \<open>of a text of JSON, given as its syntax tree\<close>
  path_join :: "string \<Rightarrow> string \<Rightarrow> string"
  path_extname :: "string \<Rightarrow> string"
  path_basename :: "string \<Rightarrow> string"
  extractRawText :: "string \<Rightarrow> exn + string"
    \<comment> \<open>\<open>mammoth.extractRawText({ buffer })\<close>, its \<open>value\<close>\<close>
  parseXML :: "string \<Rightarrow> exn + string"
    \<comment> \<open>\<open>parseXML(content)\<close> and \<open>JSON.stringify(parsed, null, 2)\<close>\<close>
  getTextContent :: "string \<Rightarrow> exn + string list list"
    \<comment> \<open>the import of \<open>pdfjs\<close>, \<open>getDocument\<close> and, page by page, \<open>getPage\<close> and
        \<open>getTextContent\<close>: the \<open>str\<close> of the items of every page\<close>

section \<open>File discovery\<close>

definition isSupportedFile :: "node_env \<Rightarrow> string \<Rightarrow> bool" where
  "isSupportedFile env fname =
     (let ext = toLowerCase (path_extname env fname)
      in ext \<in> set [''.docx'', ''.xml'', ''.pdf''])"

fun files_loop ::
  "(string \<Rightarrow> (exn + string list) option) \<Rightarrow> node_env \<Rightarrow> string \<Rightarrow> string list \<Rightarrow> string list
     \<Rightarrow> (exn + string list) option" where
  \<comment> \<open>\<open>for (const item of items)\<close> in \<open>getAllFiles\<close>; \<open>recur\<close> is the recursive call\<close>
  "files_loop recur env dirPath [] files = Some (Inr files)"
| "files_loop recur env dirPath (item # items) files =
     (let fullPath = path_join env dirPath item
      in case statSync env fullPath of
           Inl e \<Rightarrow> Some (Inl e)
         | Inr stat \<Rightarrow>
             if isDirectory stat then
               (case recur fullPath of
                  None \<Rightarrow> None
                | Some (Inl e) \<Rightarrow> Some (Inl e)
                | Some (Inr sub) \<Rightarrow> files_loop recur env dirPath items (files @ sub))
             else if isSupportedFile env item then
               files_loop recur env dirPath items (files @ [fullPath])
             else files_loop recur env dirPath items files)"

primrec getAllFiles :: "nat \<Rightarrow> node_env \<Rightarrow> string \<Rightarrow> (exn + string list) option" where
  \<comment> \<open>the first argument bounds the depth of the recursion, which no directory tree
      bounds in the source; \<open>None\<close> says that the bound was reached\<close>
  "getAllFiles 0 env dirPath = None"
| "getAllFiles (Suc depth) env dirPath =
     (if \<not> existsSync env dirPath then Some (Inr [])
      else case readdirSync env dirPath of
             Inl e \<Rightarrow> Some (Inl e)
           | Inr items \<Rightarrow> files_loop (getAllFiles depth env) env dirPath items [])"

section \<open>The format extractors\<close>

definition processDOCX :: "node_env \<Rightarrow> string \<Rightarrow> string" where
  "processDOCX env filePath =
     (case readFileSync env filePath of
        Inl e \<Rightarrow> ''Error processing DOCX: '' @ filePath
      | Inr buffer \<Rightarrow>
          (case extractRawText env buffer of
             Inl e \<Rightarrow> ''Error processing DOCX: '' @ filePath
           | Inr v \<Rightarrow> v))"

definition processXML :: "node_env \<Rightarrow> string \<Rightarrow> string" where
  "processXML env filePath =
     (case readFileSync env filePath of
        Inl e \<Rightarrow> ''Error processing XML: '' @ filePath
      | Inr content' \<Rightarrow>
          (case parseXML env content' of
             Inl e \<Rightarrow> content'
           | Inr json \<Rightarrow> json))"

definition join_with :: "string \<Rightarrow> string list \<Rightarrow> string" where
  \<comment> \<open>\<open>items.join(sep)\<close>\<close>
  "join_with sep items = (case items of [] \<Rightarrow> [] | x # xs \<Rightarrow> x @ concat (map (\<lambda>y. sep @ y) xs))"

definition processPDF :: "node_env \<Rightarrow> string \<Rightarrow> string" where
  "processPDF env filePath =
     (case readFileSync env filePath of
        Inl e \<Rightarrow> ''Error processing PDF: '' @ filePath
      | Inr buffer \<Rightarrow>
          (case getTextContent env buffer of
             Inl e \<Rightarrow> ''Error processing PDF: '' @ filePath
           | Inr pages \<Rightarrow>
               fold (\<lambda>items text. text @ join_with '' '' items @ [CHR 0x0A]) pages []))"

section \<open>The pipeline\<close>

definition document_of :: "node_env \<Rightarrow> string \<Rightarrow> stats \<Rightarrow> doc_type \<Rightarrow> string \<Rightarrow> DocumentContent" where
  \<comment> \<open>the object that \<open>processDocument\<close> returns for a file of a supported type\<close>
  "document_of env filePath stat type content' =
     (let fname = path_basename env filePath
      in \<lparr>filename = fname,
          title = extractTitle fname content',
          content = content',
          dtype = type,
          category = categorizeDocument fname,
          metadata = \<lparr>size = st_size stat, modified = mtime stat, path = filePath\<rparr>\<rparr>)"

definition processDocument :: "node_env \<Rightarrow> string \<Rightarrow> exn + DocumentContent option" where
  \<comment> \<open>\<open>Inl\<close>: \<open>statSync\<close> threw, outside the \<open>try\<close>; \<open>Inr None\<close>: \<open>null\<close>.  Nothing
      inside the \<open>try\<close> throws, the extractors holding their own handlers\<close>
  "processDocument env filePath =
     (case statSync env filePath of
        Inl e \<Rightarrow> Inl e
      | Inr stat \<Rightarrow>
          (let ext = toLowerCase (path_extname env filePath)
           in if ext = ''.docx''
              then Inr (Some (document_of env filePath stat Docx (processDOCX env filePath)))
              else if ext = ''.xml''
              then Inr (Some (document_of env filePath stat Xml (processXML env filePath)))
              else if ext = ''.pdf''
              then Inr (Some (document_of env filePath stat Pdf (processPDF env filePath)))
              else Inr None))"

record DocumentProcessor =
  documentsPath :: string
  knowledge :: ProcessedKnowledge

definition new_DocumentProcessor :: "string \<Rightarrow> DocumentProcessor" where
  \<comment> \<open>the constructor\<close>
  "new_DocumentProcessor root =
     \<lparr>documentsPath = root,
      knowledge = \<lparr>documents = [], endpoints = [], examples = [], rules = []\<rparr>\<rparr>"

definition processFile :: "node_env \<Rightarrow> string \<Rightarrow> ProcessedKnowledge \<Rightarrow> ProcessedKnowledge" where
  \<comment> \<open>the body of the loop of \<open>processAllDocuments\<close>: an exception is logged and the
      file skipped\<close>
  "processFile env filePath kb =
     (case processDocument env filePath of
        Inl e \<Rightarrow> kb
      | Inr None \<Rightarrow> kb
      | Inr (Some doc) \<Rightarrow> extractStructuredInfo doc (kb\<lparr>documents := documents kb @ [doc]\<rparr>))"

definition processAllDocuments :: "nat \<Rightarrow> node_env \<Rightarrow> DocumentProcessor \<Rightarrow> (exn + DocumentProcessor) option" where
  \<comment> \<open>the processor after the call; what the call returns is its \<open>knowledge\<close>.  An
      exception of \<open>getAllFiles\<close> leaves the method\<close>
  "processAllDocuments depth env this =
     (case getAllFiles depth env (documentsPath this) of
        None \<Rightarrow> None
      | Some (Inl e) \<Rightarrow> Some (Inl e)
      | Some (Inr files) \<Rightarrow>
          Some (Inr (this\<lparr>knowledge := fold (processFile env) files (knowledge this)\<rparr>)))"

definition getKnowledge :: "DocumentProcessor \<Rightarrow> ProcessedKnowledge" where
  "getKnowledge this = knowledge this"

section \<open>The cache\<close>

text \<open>
  The objects of the knowledge base as values.  The first argument says what the
  \<open>modified\<close> of a document is: the pipeline stores the \<open>Date\<close> of \<open>statSync\<close>, that
  is \<^const>\<open>VDate\<close>.
\<close>

definition type_name :: "doc_type \<Rightarrow> string" where
  "type_name t = (case t of Docx \<Rightarrow> ''docx'' | Xml \<Rightarrow> ''xml'' | Pdf \<Rightarrow> ''pdf'')"

definition document_value :: "(js_date \<Rightarrow> js_value) \<Rightarrow> DocumentContent \<Rightarrow> js_value" where
  "document_value date d =
     VObject
      [(''filename'', VString (filename d)),
       (''title'', VString (title d)),
       (''content'', VString (content d)),
       (''type'', VString (type_name (dtype d))),
       (''category'', VString (category d)),
       (''metadata'', VObject
          [(''size'', VNumber (int (size (metadata d)))),
           (''modified'', date (modified (metadata d))),
           (''path'', VString (path (metadata d)))])]"

definition endpoint_value :: "EndpointInfo \<Rightarrow> js_value" where
  "endpoint_value e =
     VObject
      [(''name'', VString (ep_name e)),
       (''description'', VString (ep_description e)),
       (''method'', VString (ep_method e)),
       (''url'', VString (ep_url e)),
       (''category'', VString (ep_category e)),
       (''source'', VString (ep_source e))]"

definition example_value :: "ExampleInfo \<Rightarrow> js_value" where
  "example_value x =
     VObject
      [(''name'', VString (ex_name x)),
       (''type'', VString (case ex_type x of Request \<Rightarrow> ''request'' | Response \<Rightarrow> ''response'')),
       (''content'', VString (ex_content x)),
       (''operation'', VString (ex_operation x)),
       (''source'', VString (ex_source x))]"

definition rule_value :: "RuleInfo \<Rightarrow> js_value" where
  "rule_value r =
     VObject
      [(''name'', VString (rule_name r)),
       (''description'', VString (rule_description r)),
       (''category'', VString (rule_category r)),
       (''source'', VString (rule_source r))]"

definition knowledge_value :: "(js_date \<Rightarrow> js_value) \<Rightarrow> ProcessedKnowledge \<Rightarrow> js_value" where
  "knowledge_value date kb =
     VObject
      [(''documents'', VArray (map (document_value date) (documents kb))),
       (''endpoints'', VArray (map endpoint_value (endpoints kb))),
       (''examples'', VArray (map example_value (examples kb))),
       (''rules'', VArray (map rule_value (rules kb)))]"

definition saveKnowledge :: "node_env \<Rightarrow> DocumentProcessor \<Rightarrow> string \<Rightarrow> exn + json" where
  \<comment> \<open>\<open>Inr\<close>: the text that \<open>outputPath\<close> holds after the call; \<open>Inl\<close>: the exception of
      \<open>writeFileSync\<close>, which also refuses a text that is \<open>undefined\<close>\<close>
  "saveKnowledge env this outputPath =
     (case JSON_stringify (knowledge_value VDate (knowledge this)) of
        None \<Rightarrow> Inl (Exn ''ERR_INVALID_ARG_TYPE'')
      | Some knowledgeJson \<Rightarrow>
          (case writeFileSync env outputPath knowledgeJson of
             Inl e \<Rightarrow> Inl e
           | Inr _ \<Rightarrow> Inr knowledgeJson))"

definition loadKnowledge :: "json \<Rightarrow> js_value" where
  \<comment> \<open>\<open>knowledgeBase = JSON.parse(cached)\<close> of the servers\<close>
  "loadKnowledge cached = JSON_parse cached"

section \<open>A sample directory\<close>

definition sample_extname :: "string \<Rightarrow> string" where
  "sample_extname p =
     (let r = rev (takeWhile (\<lambda>c. c \<noteq> CHR ''.'' \<and> c \<noteq> CHR ''/'') (rev p))
      in if length r < length p \<and> p ! (length p - length r - 1) = CHR ''.'' then CHR ''.'' # r else [])"

definition sample_basename :: "string \<Rightarrow> string" where
  "sample_basename p = rev (takeWhile (\<lambda>c. c \<noteq> CHR ''/'') (rev p))"

definition sample_env :: node_env where
  \<comment> \<open>\<open>docs\<close> holds an XML file that does not parse, a PDF file that does not decode,
      a text file and an empty directory\<close>
  "sample_env =
     \<lparr>existsSync = (\<lambda>p. p \<in> set [''docs'', ''docs/SubmitDDS_Request_Example.xml'',
                                   ''docs/CF2_Validation.pdf'', ''docs/notes.txt'', ''docs/old'']),
      readdirSync = (\<lambda>p. if p = ''docs''
                          then Inr [''CF2_Validation.pdf'', ''SubmitDDS_Request_Example.xml'',
                                    ''notes.txt'', ''old'']
                          else if p = ''docs/old'' then Inr []
                          else Inl (Exn ''ENOENT'')),
      statSync = (\<lambda>p. if p = ''docs/old''
                       then Inr \<lparr>isDirectory = True, st_size = 0, mtime = Date 0\<rparr>
                       else if p \<in> set [''docs/SubmitDDS_Request_Example.xml'',
                                        ''docs/CF2_Validation.pdf'', ''docs/notes.txt'']
                       then Inr \<lparr>isDirectory = False, st_size = 42, mtime = Date 1700000000123\<rparr>
                       else Inl (Exn ''ENOENT'')),
      readFileSync = (\<lambda>p. if p = ''docs/SubmitDDS_Request_Example.xml''
                           then Inr ''POST /ws/submit <unclosed''
                           else if p = ''docs/CF2_Validation.pdf'' then Inr ''%PDF''
                           else Inl (Exn ''ENOENT'')),
      writeFileSync = (\<lambda>p text. Inr ()),
      path_join = (\<lambda>d f. d @ ''/'' @ f),
      path_extname = sample_extname,
      path_basename = sample_basename,
      extractRawText = (\<lambda>b. Inl (Exn ''not a zip file'')),
      parseXML = (\<lambda>c. Inl (Exn ''Unclosed root tag'')),
      getTextContent = (\<lambda>b. Inl (Exn ''Invalid PDF structure''))\<rparr>"

definition sample_processor :: DocumentProcessor where
  \<comment> \<open>the processor after \<open>processAllDocuments\<close> over \<open>docs\<close>\<close>
  "sample_processor =
     \<lparr>documentsPath = ''docs'',
      knowledge =
        \<lparr>documents =
           [\<lparr>filename = ''CF2_Validation.pdf'', title = ''CF2_Validation'',
             content = ''Error processing PDF: docs/CF2_Validation.pdf'',
             dtype = Pdf, category = ''Submit DDS'',
             metadata = \<lparr>size = 42, modified = Date 1700000000123,
                         path = ''docs/CF2_Validation.pdf''\<rparr>\<rparr>,
            \<lparr>filename = ''SubmitDDS_Request_Example.xml'', title = ''SubmitDDS_Request_Example'',
             content = ''POST /ws/submit <unclosed'', dtype = Xml,
             category = ''Request Examples'',
             metadata = \<lparr>size = 42, modified = Date 1700000000123,
                         path = ''docs/SubmitDDS_Request_Example.xml''\<rparr>\<rparr>],
         endpoints =
           [\<lparr>ep_name = ''Request Examples - submit'', ep_description = ''/ws/submit endpoint'',
             ep_method = ''POST'', ep_url = ''/ws/submit'', ep_category = ''Request Examples'',
             ep_source = ''SubmitDDS_Request_Example.xml''\<rparr>],
         examples =
           [\<lparr>ex_name = ''SubmitDDS_Request_Example'', ex_type = Request,
             ex_content = ''POST /ws/submit <unclosed'', ex_operation = ''SubmitDDS'',
             ex_source = ''SubmitDDS_Request_Example.xml''\<rparr>],
         rules = []\<rparr>\<rparr>"

definition sample_kb :: ProcessedKnowledge where
  \<comment> \<open>the knowledge base of that processor\<close>
  "sample_kb = knowledge sample_processor"

definition sample_document :: "string \<Rightarrow> doc_type \<Rightarrow> string \<Rightarrow> DocumentContent" where
  \<comment> \<open>a document of the pipeline, for a file in the working directory\<close>
  "sample_document fname type content' =
     \<lparr>filename = fname, title = extractTitle fname content', content = content',
      dtype = type, category = categorizeDocument fname,
      metadata = \<lparr>size = length content', modified = Date 0, path = fname\<rparr>\<rparr>"

definition empty_kb :: ProcessedKnowledge where
  "empty_kb = \<lparr>documents = [], endpoints = [], examples = [], rules = []\<rparr>"

section \<open>Notions of the specification\<close>

text \<open>
  The precedence tables of the specification, and the key of a table that a file name
  meets first.
\<close>

definition categoryPrecedence :: "(string \<times> string) list" where
  "categoryPrecedence =
     [(''cf1'', ''Basic Connectivity''), (''cf2'', ''Submit DDS''),
      (''cf3'', ''Retrieve DDS Status''), (''cf4'', ''Error Conditions''),
      (''cf5'', ''Amend DDS''), (''cf6'', ''Retract DDS''),
      (''cf7'', ''Retrieve Referenced DDS''), (''validation'', ''Validation Rules''),
      (''specification'', ''API Specifications''), (''development'', ''Development Options''),
      (''geojson'', ''GeoJSON''), (''python'', ''Python Examples''),
      (''request'', ''Request Examples''), (''response'', ''Response Examples'')]"

definition operationVocabulary :: "(string \<times> string) list" where
  "operationVocabulary =
     [(''echo'', ''EchoService''), (''submit'', ''SubmitDDS''), (''retrieve'', ''RetrieveDDS''),
      (''amend'', ''AmendDDS''), (''retract'', ''RetractDDS''), (''statement'', ''GetStatement'')]"

definition first_key :: "(string \<times> string) list \<Rightarrow> string \<Rightarrow> string \<Rightarrow> string" where
  "first_key table fallback fname =
     (case find (\<lambda>(key, _). str_includes (toLowerCase fname) key) table of
        Some (_, label) \<Rightarrow> label
      | None \<Rightarrow> fallback)"

text \<open>
  The lines from \<open>before\<close> lines above line \<open>k\<close> to \<open>after\<close> lines below it, a line
  that may describe a token, and the description as the specification words it: the
  first such line among the three above and the three below.
\<close>

definition lines_around :: "nat \<Rightarrow> nat \<Rightarrow> nat \<Rightarrow> 'a list \<Rightarrow> 'a list" where
  "lines_around before after k lines =
     take (k + after + 1 - (k - before)) (drop (k - before) lines)"

definition qualifies :: "string \<Rightarrow> string \<Rightarrow> bool" where
  "qualifies token line = (\<not> str_includes line token \<and> length line > 20)"

definition description_as_specified :: "string \<Rightarrow> string \<Rightarrow> string" where
  "description_as_specified content' token =
     (let lines = split_on (CHR 0x0A) content'
      in case findIndex (\<lambda>line. str_includes line token) lines of
           None \<Rightarrow> token @ '' endpoint''
         | Some k \<Rightarrow>
             (case find (qualifies token) (lines_around 3 3 k lines) of
                Some line \<Rightarrow> line
              | None \<Rightarrow> token @ '' endpoint''))"

text \<open>
  The tokens of all three passes that make an endpoint, and the texts of all four
  passes that make a rule.
\<close>

definition endpointTokens :: "string \<Rightarrow> string list" where
  "endpointTokens s =
     filter (\<lambda>token. str_includes token ''/'')
       (exec_all verbThenToken s @ exec_all endpointToken s @ exec_all urlToken s)"

definition ruleTexts :: "string \<Rightarrow> string list" where
  "ruleTexts s =
     exec_all (cue ''rule'') s @ exec_all (cue ''validation'') s @
     exec_all (cue ''must'') s @ exec_all (cue ''should'') s"

definition ruleInfo :: "DocumentContent \<Rightarrow> string \<Rightarrow> RuleInfo" where
  "ruleInfo doc m =
     \<lparr>rule_name = trim m, rule_description = trim m,
      rule_category = ''Validation'', rule_source = filename doc\<rparr>"

text \<open>
  A knowledge base behind another, what one document contributes, and the documents
  that one file contributes.
\<close>

definition kb_append :: "ProcessedKnowledge \<Rightarrow> ProcessedKnowledge \<Rightarrow> ProcessedKnowledge" where
  "kb_append a b =
     \<lparr>documents = documents a @ documents b, endpoints = endpoints a @ endpoints b,
      examples = examples a @ examples b, rules = rules a @ rules b\<rparr>"

definition derived :: "DocumentContent \<Rightarrow> ProcessedKnowledge" where
  "derived doc =
     extractStructuredInfo doc \<lparr>documents = [doc], endpoints = [], examples = [], rules = []\<rparr>"

definition produced :: "node_env \<Rightarrow> string \<Rightarrow> DocumentContent list" where
  "produced env filePath =
     (case processDocument env filePath of Inr (Some doc) \<Rightarrow> [doc] | _ \<Rightarrow> [])"

definition sources_known :: "ProcessedKnowledge \<Rightarrow> bool" where
  "sources_known kb =
     (set (map ep_source (endpoints kb)) \<subseteq> set (map filename (documents kb)) \<and>
      set (map ex_source (examples kb)) \<subseteq> set (map filename (documents kb)) \<and>
      set (map rule_source (rules kb)) \<subseteq> set (map filename (documents kb)))"

text \<open>
  A file is kept once: a run over \<open>root\<close> from a new processor returns one document
  of that path, \<open>doc\<close>, and the loop appends \<open>doc\<close> and hands it to the three
  extractors.
\<close>

definition kept_once :: "nat \<Rightarrow> node_env \<Rightarrow> string \<Rightarrow> string \<Rightarrow> DocumentContent \<Rightarrow> bool" where
  "kept_once depth env root filePath doc =
     ((\<exists>this. processAllDocuments depth env (new_DocumentProcessor root) = Some (Inr this) \<and>
         filter (\<lambda>d. path (metadata d) = filePath) (documents (knowledge this)) = [doc]) \<and>
      (\<forall>kb. processFile env filePath kb =
         extractStructuredInfo doc (kb\<lparr>documents := documents kb @ [doc]\<rparr>)))"

text \<open>
  What a \<open>Date\<close> is once the cache has been read back: its ISO text, and \<open>null\<close> for
  the invalid date.
\<close>

definition cached_date :: "js_date \<Rightarrow> js_value" where
  "cached_date d = (case timeValue d of None \<Rightarrow> VNull | Some t \<Rightarrow> VString (toISOString t))"

section \<open>The loops\<close>

lemma str_includes_sublist: "str_includes s sub = sublist sub s"
  by (induction s) (auto simp: sublist_Cons_right)

lemma while_exec_fold:
  "while_exec p body s st = fold body (exec_all p s) st"
proof (induction p body s st rule: while_exec.induct)
  case (1 p body s st)
  show ?case
  proof (cases "exec p s")
    case None
    then show ?thesis
      by (simp add: while_exec.simps[of p body s] exec_all.simps[of p s])
  next
    case (Some a)
    obtain m s' where a: "a = (m, s')" by (cases a)
    from 1[OF Some a[symmetric]] Some a show ?thesis
      by (simp add: while_exec.simps[of p body s] exec_all.simps[of p s])
  qed
qed

lemma fold_pushEndpoint:
  "fold (pushEndpoint doc) ms kb =
     kb\<lparr>endpoints := endpoints kb @
          map (endpointInfo doc) (filter (\<lambda>t. str_includes t ''/'') ms)\<rparr>"
proof (induction ms arbitrary: kb)
  case Nil
  then show ?case by simp
next
  case (Cons m ms)
  have "\<not> str_includes [] ''/''" by simp
  then show ?case using Cons by (auto simp: pushEndpoint_def)
qed

lemma fold_pushRule:
  "fold (pushRule doc) ms kb = kb\<lparr>rules := rules kb @ map (ruleInfo doc) ms\<rparr>"
  by (induction ms arbitrary: kb) (auto simp: pushRule_def ruleInfo_def)

lemma extractEndpoints_eq:
  "extractEndpoints doc kb =
     kb\<lparr>endpoints := endpoints kb @ map (endpointInfo doc) (endpointTokens (content doc))\<rparr>"
  by (simp add: extractEndpoints_def endpointPatterns_def while_exec_fold fold_pushEndpoint
      endpointTokens_def)

lemma extractRules_eq:
  "extractRules doc kb =
     (if category doc = ''Validation Rules''
      then kb\<lparr>rules := rules kb @ map (ruleInfo doc) (ruleTexts (content doc))\<rparr>
      else kb)"
  by (simp add: extractRules_def rulePatterns_def while_exec_fold fold_pushRule ruleTexts_def)

lemma categorize_table:
  "categorizeDocument fname = first_key categoryPrecedence ''General'' fname"
  by (simp add: categorizeDocument_def first_key_def categoryPrecedence_def Let_def)

lemma operation_table:
  "extractOperationFromFilename fname = first_key operationVocabulary ''Unknown'' fname"
  by (simp add: extractOperationFromFilename_def first_key_def operationVocabulary_def Let_def)

subsection \<open>The scan for a description\<close>

lemma description_loop_find:
  "hi \<le> length lines \<Longrightarrow>
   description_loop lines token i hi =
     find (qualifies token) (map trim (take (hi - i) (drop i lines)))"
proof (induction lines token i hi rule: description_loop.induct)
  case (1 lines token i hi)
  have q: "(l \<noteq> [] \<and> \<not> str_includes l token \<and> 20 < length l) = qualifies token l" for l
    by (auto simp: qualifies_def)
  show ?case
  proof (cases "i < hi")
    case False
    then show ?thesis by (simp add: description_loop.simps[of lines token i hi])
  next
    case True
    with 1(2) have il: "i < length lines" by simp
    from True obtain n where n: "hi - i = Suc n" by (cases "hi - i") auto
    then have n': "hi - Suc i = n" by simp
    have d: "drop i lines = lines ! i # drop (Suc i) lines"
      using il by (simp add: Cons_nth_drop_Suc)
    show ?thesis
    proof (cases "qualifies token (trim (lines ! i))")
      case yes: True
      then show ?thesis using True
        by (subst description_loop.simps) (simp add: n d q Let_def)
    next
      case no: False
      then have c: "\<not> (trim (lines ! i) \<noteq> [] \<and> \<not> str_includes (trim (lines ! i)) token \<and>
                       20 < length (trim (lines ! i)))"
        by (simp add: q)
      have "description_loop lines token (i + 1) hi =
              find (qualifies token) (map trim (take (hi - (i + 1)) (drop (i + 1) lines)))"
        using 1(1)[OF True refl c 1(2)] .
      then show ?thesis using True no
        by (subst description_loop.simps) (simp add: n n' d q Let_def)
    qed
  qed
qed

lemma take_min_drop:
  "take (min (length xs) b - a) (drop a xs) = take (b - a) (drop a xs)"
  by (cases "length xs \<le> b") (simp_all add: min_def)

lemma extractEndpointDescription_find:
  "extractEndpointDescription content' token =
     (case findIndex (\<lambda>line. str_includes line token) (split_on (CHR 0x0A) content') of
        None \<Rightarrow> token @ '' endpoint''
      | Some k \<Rightarrow>
          (case find (qualifies token)
                  (map trim (lines_around 3 2 k (split_on (CHR 0x0A) content'))) of
             Some line \<Rightarrow> line
           | None \<Rightarrow> token @ '' endpoint''))"
proof -
  have e: "k + 2 + 1 = k + 3" for k :: nat by simp
  show ?thesis
    unfolding lines_around_def e extractEndpointDescription_def Let_def
    by (simp add: description_loop_find take_min_drop split: option.splits)
qed

lemma find_narrower_window:
  assumes "find P (map f (lines_around 3 3 k xs)) = None"
  shows "find P (map f (lines_around 3 2 k xs)) = None"
proof -
  have "set (lines_around 3 2 k xs) \<subseteq> set (lines_around 3 3 k xs)"
    unfolding lines_around_def by (rule set_take_subset_set_take) simp
  with assms show ?thesis by (auto simp: find_None_iff)
qed

subsection \<open>The run over the files\<close>

lemma kb_append_empty [simp]: "kb_append kb empty_kb = kb" "kb_append empty_kb kb = kb"
  by (simp_all add: kb_append_def empty_kb_def)

lemma kb_append_assoc: "kb_append (kb_append a b) c = kb_append a (kb_append b c)"
  by (simp add: kb_append_def)

lemma extractStructuredInfo_append:
  "extractStructuredInfo doc (kb\<lparr>documents := documents kb @ [doc]\<rparr>) = kb_append kb (derived doc)"
  by (simp add: extractStructuredInfo_def derived_def kb_append_def extractEndpoints_eq
      extractRules_eq extractExamples_def Let_def)

lemma processFile_append:
  "processFile env f kb = kb_append kb (fold kb_append (map derived (produced env f)) empty_kb)"
  by (simp add: processFile_def produced_def extractStructuredInfo_append
      split: sum.splits option.splits)

lemma fold_processFile_append:
  "fold (processFile env) files (kb_append a b) = kb_append a (fold (processFile env) files b)"
proof (induction files arbitrary: b)
  case Nil
  show ?case by simp
next
  case (Cons f files)
  have "processFile env f (kb_append a b) = kb_append a (processFile env f b)"
    by (subst (1 2) processFile_append) (simp add: kb_append_assoc)
  then show ?case using Cons by simp
qed

lemma fold_processFile_twice:
  "fold (processFile env) files (fold (processFile env) files empty_kb) =
   kb_append (fold (processFile env) files empty_kb) (fold (processFile env) files empty_kb)"
  using fold_processFile_append[of env files "fold (processFile env) files empty_kb" empty_kb]
  by simp

lemma processAllDocuments_new:
  assumes "processAllDocuments depth env (new_DocumentProcessor root) = Some (Inr this)"
  obtains files where "getAllFiles depth env root = Some (Inr files)"
    and "this = \<lparr>documentsPath = root, knowledge = fold (processFile env) files empty_kb\<rparr>"
  using assms
  by (auto simp: processAllDocuments_def new_DocumentProcessor_def empty_kb_def
      split: option.splits sum.splits)

lemma sources_known_append:
  "sources_known a \<Longrightarrow> sources_known b \<Longrightarrow> sources_known (kb_append a b)"
  by (auto simp: sources_known_def kb_append_def)

lemma sources_known_derived: "sources_known (derived doc)"
  by (auto simp: sources_known_def derived_def extractStructuredInfo_def extractEndpoints_eq
      extractRules_eq extractExamples_def Let_def endpointInfo_def ruleInfo_def)

lemma sources_known_empty: "sources_known empty_kb"
  by (simp add: sources_known_def empty_kb_def)

lemma sources_known_processFile:
  "sources_known kb \<Longrightarrow> sources_known (processFile env f kb)"
  by (subst processFile_append)
     (auto simp: produced_def sources_known_derived sources_known_empty
        intro!: sources_known_append split: sum.splits option.splits)

lemma sources_known_fold:
  "sources_known kb \<Longrightarrow> sources_known (fold (processFile env) files kb)"
  by (induction files arbitrary: kb) (simp_all add: sources_known_processFile)

lemma documents_processFile:
  "documents (processFile env f kb) = documents kb @ produced env f"
  by (subst processFile_append)
     (auto simp: produced_def kb_append_def empty_kb_def derived_def extractStructuredInfo_def
        extractEndpoints_eq extractRules_eq extractExamples_def Let_def
        split: sum.splits option.splits)

lemma documents_fold:
  "documents (fold (processFile env) files kb) = documents kb @ concat (map (produced env) files)"
  by (induction files arbitrary: kb) (simp_all add: documents_processFile)

lemma produced_path: "d \<in> set (produced env f) \<Longrightarrow> path (metadata d) = f"
  by (auto simp: produced_def processDocument_def document_of_def Let_def
      split: sum.splits option.splits if_splits)

lemma filter_produced_other:
  "f \<notin> set files \<Longrightarrow>
   filter (\<lambda>d. path (metadata d) = f) (concat (map (produced env) files)) = []"
  by (induction files) (auto simp: filter_empty_conv dest: produced_path)

lemma filter_produced:
  "distinct files \<Longrightarrow> f \<in> set files \<Longrightarrow>
   filter (\<lambda>d. path (metadata d) = f) (concat (map (produced env) files)) = produced env f"
proof (induction files)
  case Nil
  then show ?case by simp
next
  case (Cons g files)
  have all: "filter (\<lambda>d. path (metadata d) = h) (produced env h) = produced env h" for h
    by (simp add: filter_id_conv produced_path)
  have none: "filter (\<lambda>d. path (metadata d) = f) (produced env g) = []" if "g \<noteq> f"
    using that by (auto simp: filter_empty_conv dest: produced_path)
  show ?case
  proof (cases "g = f")
    case True
    with Cons.prems show ?thesis by (simp add: all filter_produced_other)
  next
    case False
    with Cons show ?thesis by (simp add: none)
  qed
qed

lemma processDocument_kept:
  assumes "getAllFiles depth env root = Some (Inr files)" "distinct files" "filePath \<in> set files"
    and doc: "processDocument env filePath = Inr (Some doc)"
  shows "kept_once depth env root filePath doc"
proof -
  have "produced env filePath = [doc]"
    using doc by (simp add: produced_def)
  with assms(1-3) show ?thesis
    by (simp add: kept_once_def processAllDocuments_def new_DocumentProcessor_def documents_fold
        filter_produced processFile_def doc)
qed

subsection \<open>The cache\<close>

lemma roundtrip_documents:
  "parse_elements (stringify_elements (map (document_value VDate) ds)) =
   map (document_value cached_date) ds"
  by (induction ds) (simp_all add: document_value_def cached_date_def split: option.splits)

lemma roundtrip_endpoints:
  "parse_elements (stringify_elements (map endpoint_value es)) = map endpoint_value es"
  by (induction es) (simp_all add: endpoint_value_def)

lemma roundtrip_examples:
  "parse_elements (stringify_elements (map example_value xs)) = map example_value xs"
  by (induction xs) (simp_all add: example_value_def)

lemma roundtrip_rules:
  "parse_elements (stringify_elements (map rule_value rs)) = map rule_value rs"
  by (induction rs) (simp_all add: rule_value_def)

lemma cache_roundtrip:
  "(\<forall>cached. saveKnowledge env this outputPath = Inr cached \<longrightarrow>
      loadKnowledge cached = knowledge_value cached_date (knowledge this)) \<and>
   (saveKnowledge env this outputPath = Inl e \<longrightarrow>
      (\<exists>text. writeFileSync env outputPath text = Inl e))"
  by (auto simp: saveKnowledge_def loadKnowledge_def knowledge_value_def roundtrip_documents
      roundtrip_endpoints roundtrip_examples roundtrip_rules split: sum.splits)

subsection \<open>The sample directory\<close>

lemma sample_files:
  "getAllFiles 2 sample_env ''docs'' =
     Some (Inr [''docs/CF2_Validation.pdf'', ''docs/SubmitDDS_Request_Example.xml''])"
  by code_simp

lemma sample_run:
  "processAllDocuments 2 sample_env (new_DocumentProcessor ''docs'') = Some (Inr sample_processor)"
  by code_simp

section \<open>The claims\<close>

subsection \<open>C1: the cache read back\<close>

text \<open>
  Claim C1: what the servers read back from the cache that \<open>saveKnowledge\<close> wrote is
  equal to the knowledge base of the pipeline, the \<open>modified\<close> of every document
  included.  The source does not do so.  On the run over the sample directory the cache
  is written and read back with all documents, endpoints, examples and rules, but the
  \<open>modified\<close> of the documents, a \<open>Date\<close> in the knowledge base that the run returned
  and in the declaration of \<open>DocumentContent\<close>, comes back as the text
  \<open>2023-11-14T22:13:20.123Z\<close>: the knowledge base of a server that starts from the
  cache differs from the one of the server that wrote it.
\<close>

theorem cache_reload_modified_is_text:
  "processAllDocuments 2 sample_env (new_DocumentProcessor ''docs'') = Some (Inr sample_processor) \<and>
   map_sum id loadKnowledge (saveKnowledge sample_env sample_processor ''./knowledge-cache.json'') =
     Inr (knowledge_value cached_date (knowledge sample_processor)) \<and>
   cached_date (Date 1700000000123) = VString ''2023-11-14T22:13:20.123Z'' \<and>
   knowledge_value cached_date (knowledge sample_processor) \<noteq>
     knowledge_value VDate (knowledge sample_processor)"
proof -
  have w: "writeFileSync sample_env p j = Inr ()" for p j
    by (simp add: sample_env_def)
  have s: "map_sum id loadKnowledge
        (saveKnowledge sample_env sample_processor ''./knowledge-cache.json'') =
      Inr (knowledge_value cached_date (knowledge sample_processor))"
    by (simp add: saveKnowledge_def w loadKnowledge_def knowledge_value_def roundtrip_documents
        roundtrip_endpoints roundtrip_examples roundtrip_rules)
  have d: "cached_date (Date 1700000000123) = VString ''2023-11-14T22:13:20.123Z''"
    by code_simp
  have n: "knowledge_value cached_date (knowledge sample_processor) \<noteq>
      knowledge_value VDate (knowledge sample_processor)"
    by (simp add: knowledge_value_def sample_processor_def document_value_def d)
  from sample_run s d n show ?thesis by blast
qed

subsection \<open>C2: a decoder that throws\<close>

text \<open>
  Claim C2 as stated fails for XML: the parser throws on the XML file of the sample
  directory, and the content of its document is the text of the file, not the
  placeholder \<open>Error processing XML: docs/SubmitDDS_Request_Example.xml\<close>.
\<close>

theorem xml_parse_failure_counterexample:
  "readFileSync sample_env ''docs/SubmitDDS_Request_Example.xml'' =
     Inr ''POST /ws/submit <unclosed'' \<and>
   parseXML sample_env ''POST /ws/submit <unclosed'' = Inl (Exn ''Unclosed root tag'') \<and>
   processAllDocuments 2 sample_env (new_DocumentProcessor ''docs'') = Some (Inr sample_processor) \<and>
   map content (documents (knowledge sample_processor)) =
     [''Error processing PDF: docs/CF2_Validation.pdf'', ''POST /ws/submit <unclosed'']"
  using sample_run by (simp add: sample_env_def sample_processor_def)

text \<open>
  Claim C2, amended: let the file be among the discovered files, once, with \<open>statSync\<close>
  succeeding on it.  If reading the file throws, or the DOCX or the PDF decoder throws,
  the file is kept once with the content \<open>Error processing <FORMAT>: <path>\<close>; if the
  XML parser throws, it is kept once with the text of the file as its content.  Kept
  once: the run returns exactly one document of that path, classified from its file
  name, and the three extractors have run on it.
\<close>

theorem decoder_failure_keeps_document:
  assumes "getAllFiles depth env root = Some (Inr files)" "distinct files" "filePath \<in> set files"
    and "statSync env filePath = Inr stat"
  shows "(toLowerCase (path_extname env filePath) = ''.docx'' \<and>
          ((\<exists>e. readFileSync env filePath = Inl e) \<or>
           (\<exists>buffer e. readFileSync env filePath = Inr buffer \<and>
                       extractRawText env buffer = Inl e)) \<longrightarrow>
            kept_once depth env root filePath
              (document_of env filePath stat Docx (''Error processing DOCX: '' @ filePath))) \<and>
         (toLowerCase (path_extname env filePath) = ''.pdf'' \<and>
          ((\<exists>e. readFileSync env filePath = Inl e) \<or>
           (\<exists>buffer e. readFileSync env filePath = Inr buffer \<and>
                       getTextContent env buffer = Inl e)) \<longrightarrow>
            kept_once depth env root filePath
              (document_of env filePath stat Pdf (''Error processing PDF: '' @ filePath))) \<and>
         (toLowerCase (path_extname env filePath) = ''.xml'' \<and>
          (\<exists>e. readFileSync env filePath = Inl e) \<longrightarrow>
            kept_once depth env root filePath
              (document_of env filePath stat Xml (''Error processing XML: '' @ filePath))) \<and>
         (\<forall>raw. toLowerCase (path_extname env filePath) = ''.xml'' \<and>
                readFileSync env filePath = Inr raw \<and> (\<exists>e. parseXML env raw = Inl e) \<longrightarrow>
            kept_once depth env root filePath (document_of env filePath stat Xml raw))"
proof -
  note k = processDocument_kept[OF assms(1-3)]
  have docx: "kept_once depth env root filePath
                (document_of env filePath stat Docx (processDOCX env filePath))"
    if "toLowerCase (path_extname env filePath) = ''.docx''"
    using that assms(4) by (intro k) (simp add: processDocument_def)
  have pdf: "kept_once depth env root filePath
               (document_of env filePath stat Pdf (processPDF env filePath))"
    if "toLowerCase (path_extname env filePath) = ''.pdf''"
    using that assms(4) by (intro k) (simp add: processDocument_def)
  have xml: "kept_once depth env root filePath
               (document_of env filePath stat Xml (processXML env filePath))"
    if "toLowerCase (path_extname env filePath) = ''.xml''"
    using that assms(4) by (intro k) (simp add: processDocument_def)
  show ?thesis
  proof (intro conjI impI allI)
    assume "toLowerCase (path_extname env filePath) = ''.docx'' \<and>
      ((\<exists>e. readFileSync env filePath = Inl e) \<or>
       (\<exists>buffer e. readFileSync env filePath = Inr buffer \<and> extractRawText env buffer = Inl e))"
    then show "kept_once depth env root filePath
        (document_of env filePath stat Docx (''Error processing DOCX: '' @ filePath))"
      using docx by (auto simp: processDOCX_def)
  next
    assume "toLowerCase (path_extname env filePath) = ''.pdf'' \<and>
      ((\<exists>e. readFileSync env filePath = Inl e) \<or>
       (\<exists>buffer e. readFileSync env filePath = Inr buffer \<and> getTextContent env buffer = Inl e))"
    then show "kept_once depth env root filePath
        (document_of env filePath stat Pdf (''Error processing PDF: '' @ filePath))"
      using pdf by (auto simp: processPDF_def)
  next
    assume "toLowerCase (path_extname env filePath) = ''.xml'' \<and>
      (\<exists>e. readFileSync env filePath = Inl e)"
    then show "kept_once depth env root filePath
        (document_of env filePath stat Xml (''Error processing XML: '' @ filePath))"
      using xml by (auto simp: processXML_def)
  next
    fix raw
    assume "toLowerCase (path_extname env filePath) = ''.xml'' \<and>
      readFileSync env filePath = Inr raw \<and> (\<exists>e. parseXML env raw = Inl e)"
    then show "kept_once depth env root filePath (document_of env filePath stat Xml raw)"
      using xml by (auto simp: processXML_def)
  qed
qed

theorem decoder_failure_keeps_document_witness:
  "getAllFiles 2 sample_env ''docs'' =
     Some (Inr [''docs/CF2_Validation.pdf'', ''docs/SubmitDDS_Request_Example.xml'']) \<and>
   statSync sample_env ''docs/CF2_Validation.pdf'' =
     Inr \<lparr>isDirectory = False, st_size = 42, mtime = Date 1700000000123\<rparr> \<and>
   toLowerCase (path_extname sample_env ''docs/CF2_Validation.pdf'') = ''.pdf'' \<and>
   readFileSync sample_env ''docs/CF2_Validation.pdf'' = Inr ''%PDF'' \<and>
   getTextContent sample_env ''%PDF'' = Inl (Exn ''Invalid PDF structure'') \<and>
   kept_once 2 sample_env ''docs'' ''docs/CF2_Validation.pdf''
     (document_of sample_env ''docs/CF2_Validation.pdf''
        \<lparr>isDirectory = False, st_size = 42, mtime = Date 1700000000123\<rparr> Pdf
        ''Error processing PDF: docs/CF2_Validation.pdf'') \<and>
   statSync sample_env ''docs/SubmitDDS_Request_Example.xml'' =
     Inr \<lparr>isDirectory = False, st_size = 42, mtime = Date 1700000000123\<rparr> \<and>
   toLowerCase (path_extname sample_env ''docs/SubmitDDS_Request_Example.xml'') = ''.xml'' \<and>
   readFileSync sample_env ''docs/SubmitDDS_Request_Example.xml'' =
     Inr ''POST /ws/submit <unclosed'' \<and>
   parseXML sample_env ''POST /ws/submit <unclosed'' = Inl (Exn ''Unclosed root tag'') \<and>
   kept_once 2 sample_env ''docs'' ''docs/SubmitDDS_Request_Example.xml''
     (document_of sample_env ''docs/SubmitDDS_Request_Example.xml''
        \<lparr>isDirectory = False, st_size = 42, mtime = Date 1700000000123\<rparr> Xml
        ''POST /ws/submit <unclosed'')"
proof -
  have stat: "statSync sample_env ''docs/CF2_Validation.pdf'' =
      Inr \<lparr>isDirectory = False, st_size = 42, mtime = Date 1700000000123\<rparr>"
    by (simp add: sample_env_def)
  have ext: "toLowerCase (path_extname sample_env ''docs/CF2_Validation.pdf'') = ''.pdf''"
    by code_simp
  have read: "readFileSync sample_env ''docs/CF2_Validation.pdf'' = Inr ''%PDF''"
    by (simp add: sample_env_def)
  have decode: "getTextContent sample_env ''%PDF'' = Inl (Exn ''Invalid PDF structure'')"
    by (simp add: sample_env_def)
  have pdf: "kept_once 2 sample_env ''docs'' ''docs/CF2_Validation.pdf''
     (document_of sample_env ''docs/CF2_Validation.pdf''
        \<lparr>isDirectory = False, st_size = 42, mtime = Date 1700000000123\<rparr> Pdf
        (''Error processing PDF: '' @ ''docs/CF2_Validation.pdf''))"
    using decoder_failure_keeps_document[OF sample_files _ _ stat] ext read decode by simp
  have stat': "statSync sample_env ''docs/SubmitDDS_Request_Example.xml'' =
      Inr \<lparr>isDirectory = False, st_size = 42, mtime = Date 1700000000123\<rparr>"
    by (simp add: sample_env_def)
  have ext': "toLowerCase (path_extname sample_env ''docs/SubmitDDS_Request_Example.xml'') = ''.xml''"
    by code_simp
  have read': "readFileSync sample_env ''docs/SubmitDDS_Request_Example.xml'' =
      Inr ''POST /ws/submit <unclosed''"
    by (simp add: sample_env_def)
  have parse: "parseXML sample_env ''POST /ws/submit <unclosed'' = Inl (Exn ''Unclosed root tag'')"
    by (simp add: sample_env_def)
  have xml: "kept_once 2 sample_env ''docs'' ''docs/SubmitDDS_Request_Example.xml''
     (document_of sample_env ''docs/SubmitDDS_Request_Example.xml''
        \<lparr>isDirectory = False, st_size = 42, mtime = Date 1700000000123\<rparr> Xml
        ''POST /ws/submit <unclosed'')"
    using decoder_failure_keeps_document[OF sample_files _ _ stat'] ext' read' parse by simp
  show ?thesis
    using sample_files stat ext read decode pdf stat' ext' read' parse xml by simp
qed

subsection \<open>C3: the description of an endpoint\<close>

text \<open>
  Claim C3 as stated fails: under the token line stands a line of 25 characters without
  the token, which the claim makes the description; the source measures the line
  without its indentation, 15 characters, and falls back.
\<close>

theorem description_untrimmed_counterexample:
  "description_as_specified (''GET /a'' @ [CHR 0x0A] @ ''          see section 2.1'') ''/a'' =
     ''          see section 2.1'' \<and>
   extractEndpointDescription (''GET /a'' @ [CHR 0x0A] @ ''          see section 2.1'') ''/a'' =
     ''/a endpoint''"
  by code_simp

text \<open>
  Claim C3, amended: the lines are compared and returned without their leading and
  trailing white space.  If no line contains the token, the description is
  \<open><token> endpoint\<close>.  Otherwise, with \<open>k\<close> the first line that contains the token: if
  among the lines \<open>k - 3\<close> to \<open>k + 2\<close> a trimmed line does not contain the token and is
  longer than 20 characters, the first such trimmed line is the description; and if no
  trimmed line among the lines \<open>k - 3\<close> to \<open>k + 3\<close> is such, the description is
  \<open><token> endpoint\<close>.
\<close>

theorem description_first_trimmed_line:
  "(findIndex (\<lambda>line. str_includes line token) (split_on (CHR 0x0A) content') = None \<longrightarrow>
      extractEndpointDescription content' token = token @ '' endpoint'') \<and>
   (\<forall>k line. findIndex (\<lambda>line. str_includes line token) (split_on (CHR 0x0A) content') = Some k \<and>
       find (qualifies token) (map trim (lines_around 3 2 k (split_on (CHR 0x0A) content'))) =
         Some line \<longrightarrow>
      extractEndpointDescription content' token = line) \<and>
   (\<forall>k. findIndex (\<lambda>line. str_includes line token) (split_on (CHR 0x0A) content') = Some k \<and>
       find (qualifies token) (map trim (lines_around 3 3 k (split_on (CHR 0x0A) content'))) =
         None \<longrightarrow>
      extractEndpointDescription content' token = token @ '' endpoint'')"
  by (simp add: extractEndpointDescription_find find_narrower_window)

theorem description_first_trimmed_line_witness:
  "findIndex (\<lambda>line. str_includes line ''/a'') (split_on (CHR 0x0A) ''nothing here'') = None \<and>
   extractEndpointDescription ''nothing here'' ''/a'' = ''/a endpoint'' \<and>
   findIndex (\<lambda>line. str_includes line ''/a'')
     (split_on (CHR 0x0A) (''GET /a'' @ [CHR 0x0A] @ ''  It returns the status of a statement.'')) =
     Some 0 \<and>
   find (qualifies ''/a'')
     (map trim (lines_around 3 2 0
        (split_on (CHR 0x0A) (''GET /a'' @ [CHR 0x0A] @ ''  It returns the status of a statement.'')))) =
     Some ''It returns the status of a statement.'' \<and>
   extractEndpointDescription
     (''GET /a'' @ [CHR 0x0A] @ ''  It returns the status of a statement.'') ''/a'' =
     ''It returns the status of a statement.'' \<and>
   findIndex (\<lambda>line. str_includes line ''/a'') (split_on (CHR 0x0A) (''GET /a'' @ [CHR 0x0A] @ ''short'')) =
     Some 0 \<and>
   find (qualifies ''/a'')
     (map trim (lines_around 3 3 0 (split_on (CHR 0x0A) (''GET /a'' @ [CHR 0x0A] @ ''short'')))) = None \<and>
   extractEndpointDescription (''GET /a'' @ [CHR 0x0A] @ ''short'') ''/a'' = ''/a endpoint''"
proof -
  have a: "findIndex (\<lambda>line. str_includes line ''/a'') (split_on (CHR 0x0A) ''nothing here'') = None"
    by code_simp
  have b1: "findIndex (\<lambda>line. str_includes line ''/a'')
     (split_on (CHR 0x0A) (''GET /a'' @ [CHR 0x0A] @ ''  It returns the status of a statement.'')) =
     Some 0"
    by code_simp
  have b2: "find (qualifies ''/a'')
     (map trim (lines_around 3 2 0
        (split_on (CHR 0x0A) (''GET /a'' @ [CHR 0x0A] @ ''  It returns the status of a statement.'')))) =
     Some ''It returns the status of a statement.''"
    by code_simp
  have c1: "findIndex (\<lambda>line. str_includes line ''/a'')
      (split_on (CHR 0x0A) (''GET /a'' @ [CHR 0x0A] @ ''short'')) = Some 0"
    by code_simp
  have c2: "find (qualifies ''/a'')
     (map trim (lines_around 3 3 0 (split_on (CHR 0x0A) (''GET /a'' @ [CHR 0x0A] @ ''short'')))) = None"
    by code_simp
  note t = description_first_trimmed_line
  from t[of "''/a''" "''nothing here''"] a
  have ra: "extractEndpointDescription ''nothing here'' ''/a'' = ''/a'' @ '' endpoint''"
    by blast
  from t[of "''/a''" "''GET /a'' @ [CHR 0x0A] @ ''  It returns the status of a statement.''"] b1 b2
  have rb: "extractEndpointDescription
     (''GET /a'' @ [CHR 0x0A] @ ''  It returns the status of a statement.'') ''/a'' =
     ''It returns the status of a statement.''"
    by blast
  from t[of "''/a''" "''GET /a'' @ [CHR 0x0A] @ ''short''"] c1 c2
  have rc: "extractEndpointDescription (''GET /a'' @ [CHR 0x0A] @ ''short'') ''/a'' =
     ''/a'' @ '' endpoint''"
    by blast
  show ?thesis
    using a b1 b2 c1 c2 ra rb rc by simp
qed

subsection \<open>C4: one endpoint for every match\<close>

text \<open>
  Claim C4: the endpoints that \<open>extractEndpoints\<close> appends for a document are, in this
  order, one record for every match of the pattern of the HTTP verbs, of the pattern
  \<open>endpoint\<close> and of the pattern \<open>url\<close> whose token contains \<open>/\<close>; the endpoints that
  were there stay, and a token matched several times has several records.
\<close>

theorem extractEndpoints_one_per_match:
  "extractEndpoints doc kb =
     kb\<lparr>endpoints := endpoints kb @
          map (endpointInfo doc)
            (filter (\<lambda>token. str_includes token ''/'')
               (exec_all verbThenToken (content doc) @
                exec_all endpointToken (content doc) @
                exec_all urlToken (content doc)))\<rparr>"
  using extractEndpoints_eq[of doc kb] by (simp add: endpointTokens_def)

theorem extractEndpoints_one_per_match_witness:
  "map ep_url (endpoints
     (extractEndpoints
        (sample_document ''CF2_Submit.docx'' Docx
           (''POST /api/v1/submit'' @ [CHR 0x0A] @
            ''This performs the DDS submission process for operators.'' @ [CHR 0x0A] @
            ''endpoint: /api/v1/submit url: /api/v1/submit''))
        sample_kb)) =
   [''/ws/submit'', ''/api/v1/submit'', ''/api/v1/submit'', ''/api/v1/submit'']"
proof -
  have "filter (\<lambda>token. str_includes token ''/'')
          (exec_all verbThenToken (''POST /api/v1/submit'' @ [CHR 0x0A] @
            ''This performs the DDS submission process for operators.'' @ [CHR 0x0A] @
            ''endpoint: /api/v1/submit url: /api/v1/submit'') @
           exec_all endpointToken (''POST /api/v1/submit'' @ [CHR 0x0A] @
            ''This performs the DDS submission process for operators.'' @ [CHR 0x0A] @
            ''endpoint: /api/v1/submit url: /api/v1/submit'') @
           exec_all urlToken (''POST /api/v1/submit'' @ [CHR 0x0A] @
            ''This performs the DDS submission process for operators.'' @ [CHR 0x0A] @
            ''endpoint: /api/v1/submit url: /api/v1/submit'')) =
        [''/api/v1/submit'', ''/api/v1/submit'', ''/api/v1/submit'']"
    by code_simp
  then show ?thesis
    by (simp add: extractEndpoints_one_per_match sample_document_def sample_kb_def
        sample_processor_def endpointInfo_def comp_def)
qed

subsection \<open>C5: the category of a file name\<close>

text \<open>
  Claim C5 as stated fails in its last part: a file name that contains \<open>cf2\<close> and
  \<open>validation\<close>, and \<open>cf1\<close> before them in the precedence, is of the category
  \<open>Basic Connectivity\<close>.
\<close>

theorem categorizeDocument_cf1_counterexample:
  "str_includes (toLowerCase ''CF1_cf2_Validation.docx'') ''cf2'' \<and>
   str_includes (toLowerCase ''CF1_cf2_Validation.docx'') ''validation'' \<and>
   categorizeDocument ''CF1_cf2_Validation.docx'' = ''Basic Connectivity''"
  by code_simp

text \<open>
  Claim C5, amended: the category of a file name is the label of the first key of the
  precedence \<open>cf1\<close>, \<open>cf2\<close>, \<open>cf3\<close>, \<open>cf4\<close>, \<open>cf5\<close>, \<open>cf6\<close>, \<open>cf7\<close>, \<open>validation\<close>,
  \<open>specification\<close>, \<open>development\<close>, \<open>geojson\<close>, \<open>python\<close>, \<open>request\<close>, \<open>response\<close>
  that the file name in lower case contains, and \<open>General\<close> when it contains none; in
  particular a file name that contains \<open>cf2\<close> and \<open>validation\<close>, and not \<open>cf1\<close>, is of
  the category \<open>Submit DDS\<close>.
\<close>

theorem categorizeDocument_precedence:
  "categorizeDocument fname = first_key categoryPrecedence ''General'' fname \<and>
   (str_includes (toLowerCase fname) ''cf2'' \<and> str_includes (toLowerCase fname) ''validation'' \<and>
    \<not> str_includes (toLowerCase fname) ''cf1'' \<longrightarrow> categorizeDocument fname = ''Submit DDS'')"
  by (simp add: categorize_table[symmetric]) (simp add: categorizeDocument_def)

theorem categorizeDocument_precedence_witness:
  "categorizeDocument ''cf2_Validation.docx'' =
     first_key categoryPrecedence ''General'' ''cf2_Validation.docx'' \<and>
   str_includes (toLowerCase ''cf2_Validation.docx'') ''cf2'' \<and>
   str_includes (toLowerCase ''cf2_Validation.docx'') ''validation'' \<and>
   \<not> str_includes (toLowerCase ''cf2_Validation.docx'') ''cf1'' \<and>
   categorizeDocument ''cf2_Validation.docx'' = ''Submit DDS''"
proof -
  have h: "str_includes (toLowerCase ''cf2_Validation.docx'') ''cf2'' \<and>
     str_includes (toLowerCase ''cf2_Validation.docx'') ''validation'' \<and>
     \<not> str_includes (toLowerCase ''cf2_Validation.docx'') ''cf1''"
    by code_simp
  with categorizeDocument_precedence[of "''cf2_Validation.docx''"] show ?thesis by blast
qed

subsection \<open>C6: examples\<close>

text \<open>
  Claim C6: \<open>extractExamples\<close> appends one example for a document of the type XML whose
  file name in lower case contains \<open>request\<close> or \<open>response\<close>, and nothing for any other
  document.  The example is a request if the file name contains \<open>request\<close>, else a
  response; its name is the title and its content the content of the document; its
  operation is the label of the first key of the vocabulary \<open>echo\<close>, \<open>submit\<close>,
  \<open>retrieve\<close>, \<open>amend\<close>, \<open>retract\<close>, \<open>statement\<close> in the file name, else \<open>Unknown\<close>.
  An XML document named \<open>SubmitDDS_Request_Example.xml\<close> has one example, a request of
  the operation \<open>SubmitDDS\<close>.
\<close>

theorem extractExamples_xml_request_response:
  "extractExamples doc kb =
     (if dtype doc = Xml \<and>
         (str_includes (toLowerCase (filename doc)) ''request'' \<or>
          str_includes (toLowerCase (filename doc)) ''response'')
      then kb\<lparr>examples := examples kb @
             [\<lparr>ex_name = title doc,
               ex_type = (if str_includes (toLowerCase (filename doc)) ''request''
                          then Request else Response),
               ex_content = content doc,
               ex_operation = first_key operationVocabulary ''Unknown'' (filename doc),
               ex_source = filename doc\<rparr>]\<rparr>
      else kb) \<and>
   (dtype doc = Xml \<and> filename doc = ''SubmitDDS_Request_Example.xml'' \<longrightarrow>
      (\<exists>x. examples (extractExamples doc kb) = examples kb @ [x] \<and>
           ex_type x = Request \<and> ex_operation x = ''SubmitDDS''))"
proof -
  have a: "str_includes (toLowerCase ''SubmitDDS_Request_Example.xml'') ''request''"
    by code_simp
  have b: "extractOperationFromFilename ''SubmitDDS_Request_Example.xml'' = ''SubmitDDS''"
    by code_simp
  show ?thesis
    using a b by (auto simp: extractExamples_def Let_def operation_table[symmetric])
qed

theorem extractExamples_xml_request_response_witness:
  "dtype (sample_document ''SubmitDDS_Request_Example.xml'' Xml ''<request/>'') = Xml \<and>
   filename (sample_document ''SubmitDDS_Request_Example.xml'' Xml ''<request/>'') =
     ''SubmitDDS_Request_Example.xml'' \<and>
   (\<exists>x. examples (extractExamples
                     (sample_document ''SubmitDDS_Request_Example.xml'' Xml ''<request/>'')
                     sample_kb) = examples sample_kb @ [x] \<and>
        ex_type x = Request \<and> ex_operation x = ''SubmitDDS'')"
proof -
  have t: "dtype (sample_document ''SubmitDDS_Request_Example.xml'' Xml ''<request/>'') = Xml"
    by (simp add: sample_document_def)
  have f: "filename (sample_document ''SubmitDDS_Request_Example.xml'' Xml ''<request/>'') =
      ''SubmitDDS_Request_Example.xml''"
    by (simp add: sample_document_def)
  from extractExamples_xml_request_response
    [of "sample_document ''SubmitDDS_Request_Example.xml'' Xml ''<request/>''" sample_kb] t f
  show ?thesis by blast
qed

subsection \<open>C7: one rule for every match\<close>

text \<open>
  Claim C7: \<open>extractRules\<close> leaves the knowledge base as it is for a document of a
  category other than \<open>Validation Rules\<close>; for a document of that category it appends,
  in this order, one rule for every match of the patterns \<open>rule\<close>, \<open>validation\<close>,
  \<open>must\<close> and \<open>should\<close>, whose name and description are the captured text without its
  leading and trailing white space and whose category is \<open>Validation\<close>.
\<close>

theorem extractRules_one_per_match:
  "extractRules doc kb =
     (if category doc = ''Validation Rules''
      then kb\<lparr>rules := rules kb @
             map (\<lambda>m. \<lparr>rule_name = trim m, rule_description = trim m,
                        rule_category = ''Validation'', rule_source = filename doc\<rparr>)
               (exec_all (cue ''rule'') (content doc) @
                exec_all (cue ''validation'') (content doc) @
                exec_all (cue ''must'') (content doc) @
                exec_all (cue ''should'') (content doc))\<rparr>
      else kb)"
  using extractRules_eq[of doc kb] by (simp add: ruleTexts_def ruleInfo_def[abs_def])

theorem extractRules_one_per_match_witness:
  "category (sample_document ''Validation.docx'' Docx
     (''Rule: Geolocation must include at least one point.'' @ [CHR 0x0A])) = ''Validation Rules'' \<and>
   rules (extractRules
     (sample_document ''Validation.docx'' Docx
        (''Rule: Geolocation must include at least one point.'' @ [CHR 0x0A])) sample_kb) =
     [\<lparr>rule_name = ''Geolocation must include at least one point.'',
       rule_description = ''Geolocation must include at least one point.'',
       rule_category = ''Validation'', rule_source = ''Validation.docx''\<rparr>,
      \<lparr>rule_name = ''include at least one point.'',
       rule_description = ''include at least one point.'',
       rule_category = ''Validation'', rule_source = ''Validation.docx''\<rparr>]"
proof -
  have c: "categorizeDocument ''Validation.docx'' = ''Validation Rules''"
    by code_simp
  have m: "map trim
      (exec_all (cue ''rule'') (''Rule: Geolocation must include at least one point.'' @ [CHR 0x0A]) @
       exec_all (cue ''validation'') (''Rule: Geolocation must include at least one point.'' @ [CHR 0x0A]) @
       exec_all (cue ''must'') (''Rule: Geolocation must include at least one point.'' @ [CHR 0x0A]) @
       exec_all (cue ''should'') (''Rule: Geolocation must include at least one point.'' @ [CHR 0x0A])) =
     [''Geolocation must include at least one point.'', ''include at least one point.'']"
    by code_simp
  have "rules (extractRules
     (sample_document ''Validation.docx'' Docx
        (''Rule: Geolocation must include at least one point.'' @ [CHR 0x0A])) sample_kb) =
     map (\<lambda>t. \<lparr>rule_name = t, rule_description = t,
                rule_category = ''Validation'', rule_source = ''Validation.docx''\<rparr>)
       (map trim
      (exec_all (cue ''rule'') (''Rule: Geolocation must include at least one point.'' @ [CHR 0x0A]) @
       exec_all (cue ''validation'') (''Rule: Geolocation must include at least one point.'' @ [CHR 0x0A]) @
       exec_all (cue ''must'') (''Rule: Geolocation must include at least one point.'' @ [CHR 0x0A]) @
       exec_all (cue ''should'') (''Rule: Geolocation must include at least one point.'' @ [CHR 0x0A])))"
    unfolding extractRules_one_per_match
    by (simp add: sample_document_def c sample_kb_def sample_processor_def comp_def)
  then show ?thesis
    unfolding m by (simp add: sample_document_def c)
qed

subsection \<open>C8: a root that does not exist\<close>

text \<open>
  Claim C8: if the root does not exist, \<open>getAllFiles\<close> returns the empty list, at any
  depth bound but 0 and without an exception, and \<open>processAllDocuments\<close> on a new
  processor returns the empty knowledge base.
\<close>

theorem getAllFiles_missing_root:
  assumes "\<not> existsSync env root"
  shows "getAllFiles (Suc depth) env root = Some (Inr []) \<and>
         processAllDocuments (Suc depth) env (new_DocumentProcessor root) =
           Some (Inr \<lparr>documentsPath = root,
                       knowledge = \<lparr>documents = [], endpoints = [], examples = [], rules = []\<rparr>\<rparr>)"
  using assms by (simp add: processAllDocuments_def new_DocumentProcessor_def)

theorem getAllFiles_missing_root_witness:
  "\<not> existsSync sample_env ''missing'' \<and>
   getAllFiles (Suc 0) sample_env ''missing'' = Some (Inr []) \<and>
   processAllDocuments (Suc 0) sample_env (new_DocumentProcessor ''missing'') =
     Some (Inr \<lparr>documentsPath = ''missing'',
                 knowledge = \<lparr>documents = [], endpoints = [], examples = [], rules = []\<rparr>\<rparr>)"
proof -
  have h: "\<not> existsSync sample_env ''missing''"
    by (simp add: sample_env_def)
  from getAllFiles_missing_root[OF h, of 0] h show ?thesis by blast
qed

subsection \<open>C9: the sources are documents\<close>

text \<open>
  Claim C9: in the knowledge base of a processor, the source of every endpoint, of every
  example and of every rule is the file name of a document of that knowledge base.  It
  is so for a new processor, and if it is so before a call of \<open>processAllDocuments\<close>
  that returns, it is so in the knowledge base that the call returns.
\<close>

theorem sources_are_documents:
  "sources_known (knowledge (new_DocumentProcessor root)) \<and>
   (sources_known (knowledge this) \<and>
    processAllDocuments depth env this = Some (Inr this') \<longrightarrow>
      (\<forall>e \<in> set (endpoints (knowledge this')).
         \<exists>d \<in> set (documents (knowledge this')). ep_source e = filename d) \<and>
      (\<forall>x \<in> set (examples (knowledge this')).
         \<exists>d \<in> set (documents (knowledge this')). ex_source x = filename d) \<and>
      (\<forall>r \<in> set (rules (knowledge this')).
         \<exists>d \<in> set (documents (knowledge this')). rule_source r = filename d))"
proof (intro conjI impI)
  show "sources_known (knowledge (new_DocumentProcessor root))"
    using sources_known_empty by (simp add: new_DocumentProcessor_def empty_kb_def)
next
  assume a: "sources_known (knowledge this) \<and>
    processAllDocuments depth env this = Some (Inr this')"
  then obtain files where "knowledge this' = fold (processFile env) files (knowledge this)"
    by (auto simp: processAllDocuments_def split: option.splits sum.splits)
  with a have k: "sources_known (knowledge this')"
    by (simp add: sources_known_fold)
  from k show "\<forall>e \<in> set (endpoints (knowledge this')).
      \<exists>d \<in> set (documents (knowledge this')). ep_source e = filename d"
    unfolding sources_known_def by (auto simp: subset_iff image_iff)
  from k show "\<forall>x \<in> set (examples (knowledge this')).
      \<exists>d \<in> set (documents (knowledge this')). ex_source x = filename d"
    unfolding sources_known_def by (auto simp: subset_iff image_iff)
  from k show "\<forall>r \<in> set (rules (knowledge this')).
      \<exists>d \<in> set (documents (knowledge this')). rule_source r = filename d"
    unfolding sources_known_def by (auto simp: subset_iff image_iff)
qed

theorem sources_are_documents_witness:
  "sources_known (knowledge (new_DocumentProcessor ''docs'')) \<and>
   processAllDocuments 2 sample_env (new_DocumentProcessor ''docs'') = Some (Inr sample_processor) \<and>
   set (map ep_source (endpoints (knowledge sample_processor))) \<subseteq>
     set (map filename (documents (knowledge sample_processor))) \<and>
   set (map ex_source (examples (knowledge sample_processor))) \<subseteq>
     set (map filename (documents (knowledge sample_processor))) \<and>
   set (map rule_source (rules (knowledge sample_processor))) \<subseteq>
     set (map filename (documents (knowledge sample_processor)))"
proof -
  note t = sources_are_documents
    [of "''docs''" "new_DocumentProcessor ''docs''" 2 sample_env sample_processor]
  from t have n: "sources_known (knowledge (new_DocumentProcessor ''docs''))"
    by blast
  from t n sample_run have
    "(\<forall>e \<in> set (endpoints (knowledge sample_processor)).
         \<exists>d \<in> set (documents (knowledge sample_processor)). ep_source e = filename d) \<and>
      (\<forall>x \<in> set (examples (knowledge sample_processor)).
         \<exists>d \<in> set (documents (knowledge sample_processor)). ex_source x = filename d) \<and>
      (\<forall>r \<in> set (rules (knowledge sample_processor)).
         \<exists>d \<in> set (documents (knowledge sample_processor)). rule_source r = filename d)"
    by blast
  then have "set (map ep_source (endpoints (knowledge sample_processor))) \<subseteq>
     set (map filename (documents (knowledge sample_processor))) \<and>
   set (map ex_source (examples (knowledge sample_processor))) \<subseteq>
     set (map filename (documents (knowledge sample_processor))) \<and>
   set (map rule_source (rules (knowledge sample_processor))) \<subseteq>
     set (map filename (documents (knowledge sample_processor)))"
    by (auto simp: image_iff)
  with n sample_run show ?thesis by blast
qed

subsection \<open>C10: a second run\<close>

text \<open>
  Claim C10: a second call of \<open>processAllDocuments\<close> on the same processor, over the
  same directory, returns a knowledge base that holds the documents, the endpoints, the
  examples and the rules of the first call twice.
\<close>

theorem second_run_doubles:
  assumes "processAllDocuments depth env (new_DocumentProcessor root) = Some (Inr first)"
  shows "\<exists>second. processAllDocuments depth env first = Some (Inr second) \<and>
           documents (knowledge second) = documents (knowledge first) @ documents (knowledge first) \<and>
           endpoints (knowledge second) = endpoints (knowledge first) @ endpoints (knowledge first) \<and>
           examples (knowledge second) = examples (knowledge first) @ examples (knowledge first) \<and>
           rules (knowledge second) = rules (knowledge first) @ rules (knowledge first)"
proof -
  from assms obtain files where
    files: "getAllFiles depth env root = Some (Inr files)" and
    first: "first = \<lparr>documentsPath = root, knowledge = fold (processFile env) files empty_kb\<rparr>"
    by (rule processAllDocuments_new)
  show ?thesis
    using files by (simp add: processAllDocuments_def first fold_processFile_twice kb_append_def)
qed

theorem second_run_doubles_witness:
  "processAllDocuments 2 sample_env (new_DocumentProcessor ''docs'') = Some (Inr sample_processor) \<and>
   (\<exists>second. processAllDocuments 2 sample_env sample_processor = Some (Inr second) \<and>
      documents (knowledge second) =
        documents (knowledge sample_processor) @ documents (knowledge sample_processor) \<and>
      endpoints (knowledge second) =
        endpoints (knowledge sample_processor) @ endpoints (knowledge sample_processor) \<and>
      examples (knowledge second) =
        examples (knowledge sample_processor) @ examples (knowledge sample_processor) \<and>
      rules (knowledge second) =
        rules (knowledge sample_processor) @ rules (knowledge sample_processor))"
  using second_run_doubles[OF sample_run] sample_run by simp

end
